theory Spec2Isabelle
  imports Main "HOL-Library.Sublist" "HOL-Library.Char_ord" "HOL-Library.List_Lexorder"
begin

section \<open>Python values, exceptions and the process state\<close>

text \<open>
  The program \<^verbatim>\<open>exutil.py\<close> is a small command-line driver: it resolves command
  names by prefix, accumulates list-valued options, wraps every action in a reporting
  decorator and runs the actions over the matched exercise directories. The embedding
  keeps the source's functions and names. Python objects that the code inspects are
  values of \<open>pyval\<close>; the exceptions that the code raises, catches or lets escape are
  values of \<open>exn\<close>.
\<close>

datatype pyval = PyNone | PyInt int | PyStr string | PyBytes string

datatype exn =
    CalledProcessError int pyval \<comment> \<open>\<^verbatim>\<open>returncode\<close> and \<^verbatim>\<open>output\<close>\<close>
  | SystemExit pyval \<comment> \<open>\<^verbatim>\<open>code\<close>\<close>
  | AttributeError
  | TypeError
  | OSError

text \<open>
  The state of the process and of its surroundings: the file system (of a type left
  to the environment), the text that has reached the real terminal through
  \<^verbatim>\<open>sys.stdout\<close>, whether \<^verbatim>\<open>sys.stdout\<close> is currently replaced by the buffer of
  \<^verbatim>\<open>capture()\<close>, the argument vectors of the external programs started so far, and the
  argument lists handed to the test runner so far.
\<close>

record 'fs world =
  files :: 'fs
  stdout :: string
  redirected :: bool
  spawned :: "string list list"
  pytest_runs :: "pyval list list"

text \<open>
  What the program does not implement itself is a parameter: the file-system queries
  and operations of \<^verbatim>\<open>os.path\<close>, \<^verbatim>\<open>shutil\<close> and \<^verbatim>\<open>glob\<close>, the behaviour of an external program
  (its exit status and its effect on the files, or the fact that it could not be
  started), and the test runner's entry point.
\<close>

datatype proc = Exited int | NotStarted

record 'fs env =
  isfile :: "'fs \<Rightarrow> string \<Rightarrow> bool"
  isdir :: "'fs \<Rightarrow> string \<Rightarrow> bool"
  copy2 :: "string \<Rightarrow> string \<Rightarrow> 'fs \<Rightarrow> exn option \<times> 'fs"
  rmtree :: "string \<Rightarrow> 'fs \<Rightarrow> exn option \<times> 'fs"
  glob :: "'fs \<Rightarrow> string \<Rightarrow> string list"
  run_program :: "string list \<Rightarrow> 'fs \<Rightarrow> proc \<times> 'fs"
  pytest_main :: "pyval list \<Rightarrow> 'fs \<Rightarrow> int \<times> 'fs"

text \<open>
  The parsed options (the global \<^verbatim>\<open>opts\<close>). The count action leaves \<^verbatim>\<open>verbose\<close> at
  \<^verbatim>\<open>None\<close> when \<^verbatim>\<open>-v\<close> is absent. The resolved commands (\<^verbatim>\<open>opts.command\<close>) are passed
  to the dispatch loop beside this record, because a command itself reads the options.
\<close>

record opts =
  verbose :: "nat option"
  ignore :: "string list"
  timeout :: "int option"
  exercise :: "string list"

subsection \<open>Computations that may raise\<close>

type_synonym ('fs, 'a) py = "'fs world \<Rightarrow> (exn + 'a) \<times> 'fs world"

definition py_return :: "'a \<Rightarrow> ('fs, 'a) py" where
  "py_return x = (\<lambda>w. (Inr x, w))"

definition py_raise :: "exn \<Rightarrow> ('fs, 'a) py" where
  "py_raise x = (\<lambda>w. (Inl x, w))"

definition py_bind :: "('fs, 'a) py \<Rightarrow> ('a \<Rightarrow> ('fs, 'b) py) \<Rightarrow> ('fs, 'b) py" where
  "py_bind m k = (\<lambda>w. case m w of (Inl x, w') \<Rightarrow> (Inl x, w') | (Inr v, w') \<Rightarrow> k v w')"

definition py_then :: "('fs, 'a) py \<Rightarrow> ('fs, 'b) py \<Rightarrow> ('fs, 'b) py" where
  "py_then m k = py_bind m (\<lambda>_. k)"

text \<open>
  \<^verbatim>\<open>try: m except ...: h\<close>. The handler decides by the exception which clause applies;
  an exception raised inside a handler is not offered to the sibling clauses.
\<close>

definition py_except :: "('fs, 'a) py \<Rightarrow> (exn \<Rightarrow> ('fs, 'a) py) \<Rightarrow> ('fs, 'a) py" where
  "py_except m h = (\<lambda>w. case m w of (Inl x, w') \<Rightarrow> h x w' | (Inr v, w') \<Rightarrow> (Inr v, w'))"

fun py_foreach :: "'a list \<Rightarrow> ('a \<Rightarrow> ('fs, unit) py) \<Rightarrow> ('fs, unit) py" where
  "py_foreach [] body = py_return ()"
| "py_foreach (x # xs) body = py_then (body x) (py_foreach xs body)"

fun py_map :: "('a \<Rightarrow> ('fs, 'b) py) \<Rightarrow> 'a list \<Rightarrow> ('fs, 'b list) py" where
  "py_map f [] = py_return []"
| "py_map f (x # xs) =
     py_bind (f x) (\<lambda>y. py_bind (py_map f xs) (\<lambda>ys. py_return (y # ys)))"

fun py_fold :: "('s \<Rightarrow> 'a \<Rightarrow> ('fs, 's) py) \<Rightarrow> 'a list \<Rightarrow> 's \<Rightarrow> ('fs, 's) py" where
  "py_fold f [] s = py_return s"
| "py_fold f (x # xs) s = py_bind (f s x) (py_fold f xs)"

definition sys_exit :: "pyval \<Rightarrow> ('fs, 'a) py" where
  "sys_exit code = py_raise (SystemExit code)"

text \<open>
  The exit status of the interpreter for the way the main module ended: a normal end
  and \<^verbatim>\<open>SystemExit(None)\<close> give 0, \<^verbatim>\<open>SystemExit(n)\<close> gives the low eight bits of \<open>n\<close> (what
  the operating system keeps of it), every other uncaught exception (and \<^verbatim>\<open>SystemExit\<close>
  with a non-integer) gives 1.
\<close>

fun exit_status :: "exn + 'a \<Rightarrow> int" where
  "exit_status (Inr _) = 0"
| "exit_status (Inl (SystemExit PyNone)) = 0"
| "exit_status (Inl (SystemExit (PyInt n))) = n mod 256"
| "exit_status (Inl _) = 1"

section \<open>String helpers of the standard library\<close>

definition newline :: string where
  "newline = [CHR 0x0A]"

definition apostrophe :: string where
  "apostrophe = [CHR 0x27]"

text \<open>\<^verbatim>\<open>sep.join(items)\<close> on strings.\<close>

fun join :: "string \<Rightarrow> string list \<Rightarrow> string" where
  "join sep [] = []"
| "join sep [x] = x"
| "join sep (x # y # ys) = x @ sep @ join sep (y # ys)"

text \<open>\<^verbatim>\<open>sep.join(items)\<close> on arbitrary objects: a type error unless every item is a string.\<close>

fun the_strs :: "pyval list \<Rightarrow> string list option" where
  "the_strs [] = Some []"
| "the_strs (PyStr s # vs) = (case the_strs vs of None \<Rightarrow> None | Some ss \<Rightarrow> Some (s # ss))"
| "the_strs (_ # vs) = None"

definition str_join :: "string \<Rightarrow> pyval list \<Rightarrow> ('fs, string) py" where
  "str_join sep items =
     (case the_strs items of None \<Rightarrow> py_raise TypeError | Some ss \<Rightarrow> py_return (join sep ss))"

text \<open>
  \<^verbatim>\<open>x.decode()\<close>: only a bytes object has the method. The bytes are taken to be valid
  UTF-8 and a string is the sequence of its bytes, so decoding changes nothing; the
  error that Python raises on invalid bytes is not modelled. The program only ever
  applies the method to \<^verbatim>\<open>None\<close> and to an integer.
\<close>

definition decode :: "pyval \<Rightarrow> ('fs, string) py" where
  "decode v = (case v of PyBytes b \<Rightarrow> py_return b | _ \<Rightarrow> py_raise AttributeError)"

definition is_space :: "char \<Rightarrow> bool" where
  "is_space c = (c \<in> set [CHR 0x20, CHR 0x09, CHR 0x0A, CHR 0x0B, CHR 0x0C, CHR 0x0D,
                           CHR 0x1C, CHR 0x1D, CHR 0x1E, CHR 0x1F])"

definition strip :: "string \<Rightarrow> string" where
  "strip s = rev (dropWhile is_space (rev (dropWhile is_space s)))"

text \<open>\<^verbatim>\<open>s.replace('-', '_')\<close>.\<close>

definition replace_hyphens :: "string \<Rightarrow> string" where
  "replace_hyphens s = map (\<lambda>c. if c = CHR ''-'' then CHR ''_'' else c) s"

text \<open>\<^verbatim>\<open>s.title()\<close> on ASCII text: a letter after a letter is lowered, any other letter raised.\<close>

definition lowers :: string where
  "lowers = ''abcdefghijklmnopqrstuvwxyz''"

definition uppers :: string where
  "uppers = ''ABCDEFGHIJKLMNOPQRSTUVWXYZ''"

definition upper :: "char \<Rightarrow> char" where
  "upper c = (case map_of (zip lowers uppers) c of None \<Rightarrow> c | Some u \<Rightarrow> u)"

definition lower :: "char \<Rightarrow> char" where
  "lower c = (case map_of (zip uppers lowers) c of None \<Rightarrow> c | Some l \<Rightarrow> l)"

definition is_alpha :: "char \<Rightarrow> bool" where
  "is_alpha c = (c \<in> set lowers \<or> c \<in> set uppers)"

fun title_from :: "bool \<Rightarrow> string \<Rightarrow> string" where
  "title_from prev [] = []"
| "title_from prev (c # cs) =
     (if is_alpha c then (if prev then lower c else upper c) # title_from True cs
      else c # title_from False cs)"

definition title :: "string \<Rightarrow> string" where
  "title s = title_from False s"

text \<open>\<^verbatim>\<open>os.path.join(a, b)\<close> of \<^verbatim>\<open>posixpath\<close>.\<close>

definition os_path_join :: "string \<Rightarrow> string \<Rightarrow> string" where
  "os_path_join a b =
     (if prefix ''/'' b then b
      else if a = [] \<or> suffix ''/'' a then a @ b
      else a @ ''/'' @ b)"

section \<open>The list pattern\<close>

text \<open>
  \<^verbatim>\<open>RGX_LIST = re.compile('[ ,;]')\<close>: the pattern matches exactly one character, a
  space, a comma or a semicolon. \<^verbatim>\<open>RGX_LIST.split(value)\<close> scans the value from the left
  and cuts it at every match; \<open>split_from cur rest\<close> carries the piece read since the
  last match.
\<close>

definition RGX_LIST :: "char \<Rightarrow> bool" where
  "RGX_LIST c = (c = CHR '' '' \<or> c = CHR '','' \<or> c = CHR '';'')"

fun split_from :: "string \<Rightarrow> string \<Rightarrow> string list" where
  "split_from cur [] = [cur]"
| "split_from cur (c # cs) =
     (if RGX_LIST c then cur # split_from [] cs else split_from (cur @ [c]) cs)"

definition RGX_LIST_split :: "string \<Rightarrow> string list" where
  "RGX_LIST_split v = split_from [] v"

section \<open>Printing and capturing\<close>

text \<open>
  The module's own \<^verbatim>\<open>print\<close>: \<^verbatim>\<open>level\<close> is a keyword-only parameter, so it never
  occurs in \<^verbatim>\<open>kwargs\<close>, the verbosity test is never reached and every call prints, flushed,
  to the current \<^verbatim>\<open>sys.stdout\<close>. Every call of the program passes at most one object.
  Text written while \<^verbatim>\<open>capture()\<close> is active goes to a buffer that nothing reads.
\<close>

definition printed :: "string \<Rightarrow> string \<Rightarrow> 'fs world \<Rightarrow> 'fs world" where
  "printed s ending w = (if redirected w then w else w\<lparr>stdout := stdout w @ s @ ending\<rparr>)"

definition print :: "string \<Rightarrow> string \<Rightarrow> ('fs, unit) py" where
  "print s ending = (\<lambda>w. (Inr (), printed s ending w))"

text \<open>
  \<^verbatim>\<open>with capture(): body\<close>: the streams are replaced for the body and put back in the
  \<^verbatim>\<open>finally\<close> clause, on every way out.
\<close>

definition capture :: "('fs, 'a) py \<Rightarrow> ('fs, 'a) py" where
  "capture body =
     (\<lambda>w. case body (w\<lparr>redirected := True\<rparr>) of
            (r, w') \<Rightarrow> (r, w'\<lparr>redirected := redirected w\<rparr>))"

section \<open>The command registry\<close>

text \<open>
  A Python function as the program uses it: its \<^verbatim>\<open>__name__\<close> and what a call does. A call
  reads the global options, takes the target and returns an object or raises.
\<close>

record 'fs command =
  name :: string
  call :: "opts \<Rightarrow> string \<Rightarrow> ('fs, pyval) py"

text \<open>
  \<^verbatim>\<open>CommandManager\<close> holds the list \<^verbatim>\<open>commands\<close>. \<^verbatim>\<open>register\<close> appends and sorts by name
  (\<^verbatim>\<open>list.sort\<close> is stable, as \<open>sort_key\<close> is).
\<close>

definition register :: "'fs command list \<Rightarrow> 'fs command \<Rightarrow> 'fs command list" where
  "register commands function = sort_key name (commands @ [function])"

text \<open>
  \<^verbatim>\<open>find_best\<close>: the commands whose name starts with \<open>s\<close>; the only one is returned,
  otherwise a report is printed and the process exits with status 1.
\<close>

definition find_best :: "'fs command list \<Rightarrow> string \<Rightarrow> ('fs, 'fs command) py" where
  "find_best commands s =
     (let matches = filter (\<lambda>c. prefix s (name c)) commands in
      if length matches = 1 then py_return (hd matches)
      else py_then
             (if length matches = 0
              then print (''Unknown command '' @ apostrophe @ s @ apostrophe @ apostrophe) newline
              else py_then
                     (print (''Ambigious command '' @ apostrophe @ s @ apostrophe
                             @ ''; choose from the following:'') newline)
                     (py_foreach matches (\<lambda>m. print (''  '' @ name m) newline)))
             (sys_exit (PyInt 1)))"

text \<open>The two reports of \<^verbatim>\<open>find_best\<close>, as the text that reaches the terminal.\<close>

definition unknown_report :: "string \<Rightarrow> string" where
  "unknown_report s = ''Unknown command '' @ apostrophe @ s @ apostrophe @ apostrophe @ newline"

definition ambiguous_report :: "string \<Rightarrow> string list \<Rightarrow> string" where
  "ambiguous_report s names =
     ''Ambigious command '' @ apostrophe @ s @ apostrophe @ ''; choose from the following:''
     @ newline @ concat (map (\<lambda>n. ''  '' @ n @ newline) names)"

section \<open>The list-valued argument action\<close>

text \<open>
  The attributes of the namespace that an \<^verbatim>\<open>ExtendAction\<close> writes hold \<^verbatim>\<open>None\<close> or a list.
  \<^verbatim>\<open>__parse__\<close> is the method a subclass overrides: the identity in \<^verbatim>\<open>ExtendAction\<close>,
  \<^verbatim>\<open>cmd_mgr.find_best\<close> in \<^verbatim>\<open>CommandAction\<close>; it is a parameter of \<^verbatim>\<open>__extend__\<close> and
  \<^verbatim>\<open>__call__\<close> here. The values of one occurrence of the option arrive as one string or,
  for \<^verbatim>\<open>nargs='+'\<close>, as a list of strings.
\<close>

datatype 'a namespace = Namespace (attrs: "string \<Rightarrow> 'a list option")

definition getattr :: "'a namespace \<Rightarrow> string \<Rightarrow> 'a list option" where
  "getattr namespace dest = attrs namespace dest"

definition setattr :: "'a namespace \<Rightarrow> string \<Rightarrow> 'a list option \<Rightarrow> 'a namespace" where
  "setattr namespace dest v = Namespace ((attrs namespace)(dest := v))"

datatype arg_values = Single string | Multiple "string list"

definition ExtendAction_parse :: "string \<Rightarrow> ('fs, string) py" where
  "ExtendAction_parse v = py_return v"

definition CommandAction_parse :: "'fs command list \<Rightarrow> string \<Rightarrow> ('fs, 'fs command) py" where
  "CommandAction_parse cmd_mgr v = find_best cmd_mgr v"

definition ExtendAction_extend ::
  "(string \<Rightarrow> ('fs, 'a) py) \<Rightarrow> string \<Rightarrow> 'a namespace \<Rightarrow> string \<Rightarrow> ('fs, 'a namespace) py" where
  "ExtendAction_extend parse dest namespace v =
     (let current = (case getattr namespace dest of None \<Rightarrow> [] | Some xs \<Rightarrow> xs);
          parsed = RGX_LIST_split v
      in py_bind (py_map parse parsed)
           (\<lambda>items. py_return (setattr namespace dest (Some (current @ items)))))"

definition ExtendAction_call ::
  "(string \<Rightarrow> ('fs, 'a) py) \<Rightarrow> string \<Rightarrow> 'a namespace \<Rightarrow> arg_values \<Rightarrow> ('fs, 'a namespace) py" where
  "ExtendAction_call parse dest namespace vs =
     (case vs of
        Multiple values \<Rightarrow> py_fold (ExtendAction_extend parse dest) values namespace
      | Single v \<Rightarrow> ExtendAction_extend parse dest namespace v)"

text \<open>
  What \<^verbatim>\<open>parse_args\<close> does with one option: the attribute starts as the action's
  default and the action is called once for every occurrence on the command line, in
  order. \<^verbatim>\<open>-i/--ignore\<close> is declared with \<^verbatim>\<open>default=[]\<close>.
\<close>

definition parse_option ::
  "(string \<Rightarrow> ('fs, 'a) py) \<Rightarrow> string \<Rightarrow> 'a list option \<Rightarrow> arg_values list
     \<Rightarrow> 'a namespace \<Rightarrow> ('fs, 'a namespace) py" where
  "parse_option parse dest dflt occurrences namespace =
     py_fold (ExtendAction_call parse dest) occurrences (setattr namespace dest dflt)"

definition ignore_default :: "string list option" where
  "ignore_default = Some []"

text \<open>
  For stating what an option holds in the end: the strings of one occurrence, the list
  an attribute stands for (\<^verbatim>\<open>None\<close> is extended as the empty list), and the attribute
  after the strings \<open>vs\<close> have been supplied.
\<close>

definition occurrence_values :: "arg_values \<Rightarrow> string list" where
  "occurrence_values vs = (case vs of Single v \<Rightarrow> [v] | Multiple values \<Rightarrow> values)"

definition held :: "'a list option \<Rightarrow> 'a list" where
  "held current = (case current of None \<Rightarrow> [] | Some xs \<Rightarrow> xs)"

definition accumulated :: "string list option \<Rightarrow> string list \<Rightarrow> string list option" where
  "accumulated current vs =
     (if vs = [] then current else Some (held current @ concat (map RGX_LIST_split vs)))"

section \<open>The task wrapper\<close>

text \<open>
  \<^verbatim>\<open>_wrapper\<close>, the function that \<^verbatim>\<open>task(action)\<close> puts in place of the decorated one. The
  value of \<^verbatim>\<open>function(target)\<close> is dropped in both branches and \<^verbatim>\<open>_wrapper\<close> has no
  \<^verbatim>\<open>return\<close> statement. \<^verbatim>\<open>functools.wraps\<close> gives the wrapper the name of the function.
\<close>

definition truthy :: "nat option \<Rightarrow> bool" where
  "truthy v = (case v of None \<Rightarrow> False | Some n \<Rightarrow> n \<noteq> 0)"

definition except_clauses :: "exn \<Rightarrow> ('fs, pyval) py" where
  "except_clauses x =
     (case x of
        CalledProcessError returncode output \<Rightarrow>
          py_bind (decode output)
            (\<lambda>text. py_then (print (strip text) newline) (sys_exit (PyInt returncode)))
      | SystemExit code \<Rightarrow> py_then (print ''Failed'' newline) (sys_exit code)
      | _ \<Rightarrow> py_raise x)"

definition wrapper ::
  "string \<Rightarrow> (opts \<Rightarrow> string \<Rightarrow> ('fs, pyval) py) \<Rightarrow> opts \<Rightarrow> string \<Rightarrow> ('fs, pyval) py" where
  "wrapper action function opts target =
     py_then (print (title action @ '' '' @ target @ ''...'') [])
       (py_except
          (py_then
             (if truthy (verbose opts)
              then py_then (print [] newline) (function opts target)
              else capture (function opts target))
             (py_then (print ''Done'' newline) (py_return PyNone)))
          except_clauses)"

definition task :: "string \<Rightarrow> 'fs command \<Rightarrow> 'fs command" where
  "task action function = \<lparr>name = name function, call = wrapper action (call function)\<rparr>"

text \<open>
  Two states of a wrapped call: the one in which \<^verbatim>\<open>_wrapper\<close> calls the function (after the
  announcement, and after the newline or inside \<^verbatim>\<open>capture()\<close>), and the one in which the
  \<^verbatim>\<open>try\<close> body is left when the function ended in \<open>w'\<close> (\<^verbatim>\<open>capture()\<close> has put the stream
  back).
\<close>

definition entered :: "string \<Rightarrow> opts \<Rightarrow> string \<Rightarrow> 'fs world \<Rightarrow> 'fs world" where
  "entered action opts target w =
     (if truthy (verbose opts)
      then printed [] newline (printed (title action @ '' '' @ target @ ''...'') [] w)
      else (printed (title action @ '' '' @ target @ ''...'') [] w)\<lparr>redirected := True\<rparr>)"

definition resumed :: "opts \<Rightarrow> 'fs world \<Rightarrow> 'fs world \<Rightarrow> 'fs world" where
  "resumed opts w w' = (if truthy (verbose opts) then w' else w'\<lparr>redirected := redirected w\<rparr>)"

section \<open>External programs\<close>

text \<open>
  \<^verbatim>\<open>subprocess.check_call(args, stderr=STDOUT)\<close>: the program runs with the streams of
  the process (nothing is captured); the call returns the integer 0 when the exit status
  is zero and raises \<^verbatim>\<open>CalledProcessError(returncode, args)\<close>, whose \<^verbatim>\<open>output\<close> is \<^verbatim>\<open>None\<close>,
  otherwise. A program that cannot be started raises an \<^verbatim>\<open>OSError\<close>.
\<close>

definition check_call :: "'fs env \<Rightarrow> string list \<Rightarrow> ('fs, pyval) py" where
  "check_call e args =
     (\<lambda>w. case run_program e args (files w) of
            (NotStarted, fs) \<Rightarrow> (Inl OSError, w\<lparr>files := fs\<rparr>)
          | (Exited rc, fs) \<Rightarrow>
              (if rc \<noteq> 0 then Inl (CalledProcessError rc PyNone) else Inr (PyInt 0),
               w\<lparr>files := fs, spawned := spawned w @ [args]\<rparr>))"

definition terminal :: "'fs env \<Rightarrow> string list \<Rightarrow> ('fs, pyval) py" where
  "terminal e args =
     py_then (print (join '' '' args) newline)
       (py_bind (check_call e args)
          (\<lambda>r. py_bind (decode r) (\<lambda>text. py_return PyNone)))"

definition exercism :: "'fs env \<Rightarrow> string list \<Rightarrow> ('fs, pyval) py" where
  "exercism e args = terminal e (''exercism'' # args)"

definition git :: "'fs env \<Rightarrow> string list \<Rightarrow> ('fs, pyval) py" where
  "git e args = terminal e (''git'' # args)"

section \<open>File-system calls\<close>

definition os_path_isfile :: "'fs env \<Rightarrow> string \<Rightarrow> ('fs, bool) py" where
  "os_path_isfile e p = (\<lambda>w. (Inr (isfile e (files w) p), w))"

definition os_path_isdir :: "'fs env \<Rightarrow> string \<Rightarrow> ('fs, bool) py" where
  "os_path_isdir e p = (\<lambda>w. (Inr (isdir e (files w) p), w))"

definition shutil_copy2 :: "'fs env \<Rightarrow> string \<Rightarrow> string \<Rightarrow> ('fs, unit) py" where
  "shutil_copy2 e src dst =
     (\<lambda>w. case copy2 e src dst (files w) of
            (None, fs) \<Rightarrow> (Inr (), w\<lparr>files := fs\<rparr>)
          | (Some x, fs) \<Rightarrow> (Inl x, w\<lparr>files := fs\<rparr>))"

definition shutil_rmtree :: "'fs env \<Rightarrow> string \<Rightarrow> ('fs, unit) py" where
  "shutil_rmtree e p =
     (\<lambda>w. case rmtree e p (files w) of
            (None, fs) \<Rightarrow> (Inr (), w\<lparr>files := fs\<rparr>)
          | (Some x, fs) \<Rightarrow> (Inl x, w\<lparr>files := fs\<rparr>))"

definition pytest :: "'fs env \<Rightarrow> pyval list \<Rightarrow> ('fs, int) py" where
  "pytest e args =
     (\<lambda>w. case pytest_main e args (files w) of
            (ret, fs) \<Rightarrow> (Inr ret, w\<lparr>files := fs, pytest_runs := pytest_runs w @ [args]\<rparr>))"

section \<open>The task actions\<close>

definition migrate :: "'fs env \<Rightarrow> string \<Rightarrow> ('fs, pyval) py" where
  "migrate e exercise' =
     py_bind (os_path_isfile e (os_path_join exercise' ''.solution.json''))
       (\<lambda>migrated.
          if migrated
          then py_then (print (exercise' @ '' has already been migrated'') newline)
                 (py_return PyNone)
          else py_then (exercism e [''download'', ''-t'', ''python'', ''-e'', exercise'])
                 (let src_dir = exercise' @ ''-2'' in
                  py_bind (os_path_isdir e src_dir)
                    (\<lambda>present.
                       if \<not> present
                       then (let solution_file = replace_hyphens exercise' @ ''.py'' in
                             py_then (print (''Restoring '' @ solution_file) newline)
                               (py_then
                                  (git e [''checkout'', ''--'', os_path_join exercise' solution_file])
                                  (py_return PyNone)))
                       else py_then
                              (py_foreach
                                 [''.solution.json'', ''README.md'',
                                  replace_hyphens exercise' @ ''_test.py'']
                                 (\<lambda>filename.
                                    (let src = os_path_join src_dir filename;
                                         dst = os_path_join exercise' filename
                                     in py_then (print (''Copying '' @ src @ ''->'' @ dst) newline)
                                          (shutil_copy2 e src dst))))
                              (py_then (print (''Removing '' @ src_dir @ ''/'') newline)
                                 (py_then (shutil_rmtree e src_dir) (py_return PyNone))))))"

definition test :: "'fs env \<Rightarrow> opts \<Rightarrow> string \<Rightarrow> ('fs, pyval) py" where
  "test e opts exercise' =
     (let args = [PyStr ''-x'', PyStr exercise']
                 @ (case timeout opts of None \<Rightarrow> [] | Some t \<Rightarrow> [PyStr ''--timeout'', PyInt t])
      in py_bind (str_join '' '' (PyStr ''pytest'' # args))
           (\<lambda>line. py_then (print line newline)
              (py_bind (pytest e args) (\<lambda>ret. py_return (PyInt ret)))))"

definition submit :: "'fs env \<Rightarrow> string \<Rightarrow> ('fs, pyval) py" where
  "submit e exercise' =
     (let solution_file_name = replace_hyphens exercise' @ ''.py'';
          solution_file_path = os_path_join exercise' solution_file_name
      in py_then (exercism e [''submit'', solution_file_path]) (py_return PyNone))"

definition restore :: "'fs env \<Rightarrow> string \<Rightarrow> ('fs, pyval) py" where
  "restore e exercise' =
     py_then (print (''Removing '' @ exercise' @ ''/'') newline)
       (py_then (shutil_rmtree e exercise')
          (py_then (git e [''checkout'', ''--'', exercise']) (py_return PyNone)))"

definition checkin :: "'fs env \<Rightarrow> string \<Rightarrow> ('fs, pyval) py" where
  "checkin e exercise' = py_then (git e [''add'', exercise']) (py_return PyNone)"

text \<open>
  The module-level names after decoration: each function is wrapped by \<^verbatim>\<open>task\<close>, and
  the wrapper is what \<^verbatim>\<open>register\<close> receives and what the name is bound to.
\<close>

definition migrate_cmd :: "'fs env \<Rightarrow> 'fs command" where
  "migrate_cmd e = task ''migrating'' \<lparr>name = ''migrate'', call = (\<lambda>opts. migrate e)\<rparr>"

definition test_cmd :: "'fs env \<Rightarrow> 'fs command" where
  "test_cmd e = task ''testing'' \<lparr>name = ''test'', call = test e\<rparr>"

definition submit_cmd :: "'fs env \<Rightarrow> 'fs command" where
  "submit_cmd e = task ''submitting'' \<lparr>name = ''submit'', call = (\<lambda>opts. submit e)\<rparr>"

definition restore_cmd :: "'fs env \<Rightarrow> 'fs command" where
  "restore_cmd e = task ''restoring'' \<lparr>name = ''restore'', call = (\<lambda>opts. restore e)\<rparr>"

definition checkin_cmd :: "'fs env \<Rightarrow> 'fs command" where
  "checkin_cmd e = task ''checking in'' \<lparr>name = ''checkin'', call = (\<lambda>opts. checkin e)\<rparr>"

text \<open>The registry after the five registrations, in the order of the source file.\<close>

definition cmd_mgr :: "'fs env \<Rightarrow> 'fs command list" where
  "cmd_mgr e =
     foldl register [] [migrate_cmd e, test_cmd e, submit_cmd e, restore_cmd e, checkin_cmd e]"

section \<open>The dispatch loop\<close>

text \<open>
  The three nested loops of the main block. Beside the way the loop ends and the final
  state, the functions return the record of the calls made, in order: the name of the
  command, the target, and how the call ended. \<open>none_or_zero ret\<close> is
  \<^verbatim>\<open>ret in {None, 0}\<close>.
\<close>

type_synonym call_record = "string \<times> string \<times> (exn + pyval)"

definition none_or_zero :: "pyval \<Rightarrow> bool" where
  "none_or_zero ret = (ret = PyNone \<or> ret = PyInt 0)"

fun for_commands ::
  "opts \<Rightarrow> 'fs command list \<Rightarrow> string \<Rightarrow> 'fs world
     \<Rightarrow> call_record list \<times> (exn + unit) \<times> 'fs world" where
  "for_commands opts [] ex w = ([], Inr (), w)"
| "for_commands opts (c # cs) ex w =
     (case call c opts ex w of
        (Inl x, w') \<Rightarrow> ([(name c, ex, Inl x)], Inl x, w')
      | (Inr ret, w') \<Rightarrow>
          if none_or_zero ret
          then (case for_commands opts cs ex w' of
                  (log, r, w'') \<Rightarrow> ((name c, ex, Inr ret) # log, r, w''))
          else ([(name c, ex, Inr ret)], Inl (SystemExit ret), w'))"

fun for_targets ::
  "opts \<Rightarrow> 'fs command list \<Rightarrow> string list \<Rightarrow> 'fs world
     \<Rightarrow> call_record list \<times> (exn + unit) \<times> 'fs world" where
  "for_targets opts cmds [] w = ([], Inr (), w)"
| "for_targets opts cmds (ex # exs) w =
     (if ex \<in> set (ignore opts) then for_targets opts cmds exs w
      else (case for_commands opts cmds ex w of
              (log, Inl x, w') \<Rightarrow> (log, Inl x, w')
            | (log, Inr u, w') \<Rightarrow>
                (case for_targets opts cmds exs w' of
                   (log', r, w'') \<Rightarrow> (log @ log', r, w''))))"

fun for_patterns ::
  "'fs env \<Rightarrow> opts \<Rightarrow> 'fs command list \<Rightarrow> string list \<Rightarrow> 'fs world
     \<Rightarrow> call_record list \<times> (exn + unit) \<times> 'fs world" where
  "for_patterns e opts cmds [] w = ([], Inr (), w)"
| "for_patterns e opts cmds (p # ps) w =
     (case for_targets opts cmds (glob e (files w) p) w of
        (log, Inl x, w') \<Rightarrow> (log, Inl x, w')
      | (log, Inr u, w') \<Rightarrow>
          (case for_patterns e opts cmds ps w' of
             (log', r, w'') \<Rightarrow> (log @ log', r, w'')))"

definition dispatch ::
  "'fs env \<Rightarrow> opts \<Rightarrow> 'fs command list \<Rightarrow> 'fs world
     \<Rightarrow> call_record list \<times> (exn + unit) \<times> 'fs world" where
  "dispatch e opts cmds w = for_patterns e opts cmds (exercise opts) w"

text \<open>
  The loop as the specification words it, to compare the code with. \<open>calls_for\<close> are the
  calls due for the listing of one pattern: the ignored targets are left out, and for
  each remaining target, in the order of the listing, every command in order.
  \<open>run_calls\<close> makes a list of calls one after the other, each in the state the one before
  left, and stops at the first that raises or returns something other than \<^verbatim>\<open>None\<close> and
  0, exiting with that object. \<open>run_listed\<close> takes the patterns in order, lists each in
  the state reached when its turn comes, and runs the calls for that listing.
\<close>

definition calls_for :: "opts \<Rightarrow> 'fs command list \<Rightarrow> string list \<Rightarrow> ('fs command \<times> string) list" where
  "calls_for opts cmds targets =
     concat (map (\<lambda>ex. map (\<lambda>c. (c, ex)) cmds)
                 (filter (\<lambda>ex. ex \<notin> set (ignore opts)) targets))"

fun run_calls ::
  "opts \<Rightarrow> ('fs command \<times> string) list \<Rightarrow> 'fs world
     \<Rightarrow> call_record list \<times> (exn + unit) \<times> 'fs world" where
  "run_calls opts [] w = ([], Inr (), w)"
| "run_calls opts ((c, ex) # rest) w =
     (case call c opts ex w of
        (Inl x, w') \<Rightarrow> ([(name c, ex, Inl x)], Inl x, w')
      | (Inr ret, w') \<Rightarrow>
          if none_or_zero ret
          then (case run_calls opts rest w' of
                  (log, r, w'') \<Rightarrow> ((name c, ex, Inr ret) # log, r, w''))
          else ([(name c, ex, Inr ret)], Inl (SystemExit ret), w'))"

fun run_listed ::
  "'fs env \<Rightarrow> opts \<Rightarrow> 'fs command list \<Rightarrow> string list \<Rightarrow> 'fs world
     \<Rightarrow> call_record list \<times> (exn + unit) \<times> 'fs world" where
  "run_listed e opts cmds [] w = ([], Inr (), w)"
| "run_listed e opts cmds (p # ps) w =
     (case run_calls opts (calls_for opts cmds (glob e (files w) p)) w of
        (log, Inl x, w') \<Rightarrow> (log, Inl x, w')
      | (log, Inr u, w') \<Rightarrow>
          (case run_listed e opts cmds ps w' of
             (log', r, w'') \<Rightarrow> (log @ log', r, w'')))"

definition named :: "('fs command \<times> string) list \<Rightarrow> (string \<times> string) list" where
  "named calls = map (\<lambda>(c, ex). (name c, ex)) calls"

text \<open>
  The commands leave the listing of every pattern as it is (as commands do that touch
  no file, or none that a pattern matches).
\<close>

definition keeps_listings :: "'fs env \<Rightarrow> opts \<Rightarrow> 'fs command list \<Rightarrow> bool" where
  "keeps_listings e opts cmds =
     (\<forall>c \<in> set cmds. \<forall>ex w. \<forall>p \<in> set (exercise opts).
        glob e (files (snd (call c opts ex w))) p = glob e (files w) p)"

text \<open>
  For stating what a run did: a call that let the loop go on, a call that ended the
  process with the exception \<open>x\<close>, the command and target of a recorded call and of a
  call that is due, and the relation between the calls due and the record of a run.
\<close>

definition succeeded :: "call_record \<Rightarrow> bool" where
  "succeeded c = (case snd (snd c) of Inr ret \<Rightarrow> none_or_zero ret | Inl x \<Rightarrow> False)"

definition stopped_by :: "call_record \<Rightarrow> exn \<Rightarrow> bool" where
  "stopped_by c x =
     (case snd (snd c) of Inr ret \<Rightarrow> \<not> none_or_zero ret \<and> x = SystemExit ret | Inl y \<Rightarrow> x = y)"

definition made :: "call_record \<Rightarrow> string \<times> string" where
  "made c = (fst c, fst (snd c))"

definition follows :: "(string \<times> string) list \<Rightarrow> call_record list \<times> (exn + unit) \<times> 'fs world \<Rightarrow> bool" where
  "follows full res =
     (case res of (log, r, w') \<Rightarrow>
        list_all succeeded (butlast log)
      \<and> prefix (map made log) full
      \<and> (case r of
            Inr u \<Rightarrow> list_all succeeded log \<and> map made log = full
          | Inl x \<Rightarrow> log \<noteq> [] \<and> stopped_by (last log) x))"

section \<open>A concrete environment\<close>

text \<open>
  An instance of the environment to run the definitions on: the file system is the list
  of the paths present, each marked as a directory or a regular file; a pattern without
  wildcards matches the path it names. The external program \<open>tool rc\<close> exits with status
  \<open>rc\<close>; when it succeeds as \<^verbatim>\<open>exercism download ... -e <exercise>\<close> it leaves a downloaded
  copy of the exercise in \<^verbatim>\<open><exercise>-2\<close>, the layout that the copying branch of \<^verbatim>\<open>migrate\<close>
  reads. The test runner returns the given code.
\<close>

type_synonym tree = "(string \<times> bool) list"

definition tool :: "int \<Rightarrow> string list \<Rightarrow> tree \<Rightarrow> proc \<times> tree" where
  "tool rc args fs =
     (Exited rc,
      if rc = 0 \<and> take 2 args = [''exercism'', ''download'']
      then [(last args @ ''-2'', True),
            (last args @ ''-2/.solution.json'', False),
            (last args @ ''-2/README.md'', False),
            (last args @ ''-2/'' @ replace_hyphens (last args) @ ''_test.py'', False)] @ fs
      else fs)"

definition tree_env :: "(string list \<Rightarrow> tree \<Rightarrow> proc \<times> tree) \<Rightarrow> int \<Rightarrow> tree env" where
  "tree_env program code =
     \<lparr>isfile = (\<lambda>fs p. (p, False) \<in> set fs),
      isdir = (\<lambda>fs p. (p, True) \<in> set fs),
      copy2 = (\<lambda>src dst fs.
                 if (src, False) \<in> set fs then (None, (dst, False) # fs) else (Some OSError, fs)),
      rmtree = (\<lambda>p fs.
                  if (p, True) \<in> set fs
                  then (None, filter (\<lambda>(q, d). q \<noteq> p \<and> \<not> prefix (p @ ''/'') q) fs)
                  else (Some OSError, fs)),
      glob = (\<lambda>fs pat. if pat \<in> set (map fst fs) then [pat] else []),
      run_program = program,
      pytest_main = (\<lambda>args fs. (code, fs))\<rparr>"

definition start :: "'fs \<Rightarrow> 'fs world" where
  "start fs = \<lparr>files = fs, stdout = [], redirected = False, spawned = [], pytest_runs = []\<rparr>"

text \<open>Options without \<^verbatim>\<open>-v\<close>, \<^verbatim>\<open>-i\<close> and \<^verbatim>\<open>-t\<close>, and a tree with one exercise not yet migrated.\<close>

definition demo_opts :: opts where
  "demo_opts = \<lparr>verbose = None, ignore = [], timeout = None, exercise = [''two-fer'']\<rparr>"

definition demo_tree :: tree where
  "demo_tree = [(''two-fer'', True), (''two-fer/two_fer.py'', False)]"

text \<open>The same exercise after migration.\<close>

definition migrated_tree :: tree where
  "migrated_tree = [(''two-fer'', True), (''two-fer/.solution.json'', False),
                    (''two-fer/two_fer.py'', False)]"

text \<open>Options with two targets, a tree that holds both, and a command that removes a path.\<close>

definition two_targets :: opts where
  "two_targets = \<lparr>verbose = None, ignore = [], timeout = None, exercise = [''ex1'', ''ex2'']\<rparr>"

definition two_tree :: tree where
  "two_tree = [(''ex1'', True), (''ex2'', True)]"

definition removing_command :: "string \<Rightarrow> string \<Rightarrow> tree command" where
  "removing_command n victim =
     \<lparr>name = n,
      call = (\<lambda>opts target w. (Inr PyNone, w\<lparr>files := filter (\<lambda>(q, d). q \<noteq> victim) (files w)\<rparr>))\<rparr>"

text \<open>A command that prints its call and returns a fixed object.\<close>

definition stub_command :: "string \<Rightarrow> pyval \<Rightarrow> 'fs command" where
  "stub_command n ret =
     \<lparr>name = n,
      call = (\<lambda>opts target. py_then (print (n @ ''('' @ target @ '') '') []) (py_return ret))\<rparr>"

section \<open>Splitting a list-valued argument\<close>

lemma split_from_plain:
  "\<not> list_ex RGX_LIST t \<Longrightarrow> split_from cur t = [cur @ t]"
  by (induction t arbitrary: cur) simp_all

lemma split_from_delimiter:
  "\<not> list_ex RGX_LIST t \<Longrightarrow> RGX_LIST c \<Longrightarrow>
   split_from cur (t @ c # rest) = (cur @ t) # split_from [] rest"
  by (induction t arbitrary: cur) simp_all

lemma length_split_from:
  "length (split_from cur v) = Suc (length (filter RGX_LIST v))"
  by (induction v arbitrary: cur) simp_all

text \<open>
  Claim C5, as the code has it. The value is cut at every single space, comma or
  semicolon, not at runs of them: a piece \<open>t\<close> without a delimiter is returned whole; a
  delimiter character after such a piece ends it, and the rest is split on its own, so
  that two delimiters in a row enclose an empty piece; a value with \<open>n\<close> delimiter
  characters gives \<open>n + 1\<close> pieces. The tokens a, b, c, d separated by one delimiter
  each, whichever of the three, give exactly the four tokens, and so does
  \<^verbatim>\<open>"a,b c;d"\<close>.
\<close>

theorem RGX_LIST_split_each_delimiter:
  "(\<not> list_ex RGX_LIST t \<longrightarrow>
      RGX_LIST_split t = [t] \<and>
      (RGX_LIST c \<longrightarrow> RGX_LIST_split (t @ c # rest) = t # RGX_LIST_split rest))
   \<and> length (RGX_LIST_split v) = Suc (length (filter RGX_LIST v))
   \<and> (RGX_LIST d1 \<and> RGX_LIST d2 \<and> RGX_LIST d3 \<longrightarrow>
        RGX_LIST_split (''a'' @ d1 # ''b'' @ d2 # ''c'' @ d3 # ''d'') = [''a'', ''b'', ''c'', ''d''])
   \<and> RGX_LIST_split ''a,b c;d'' = [''a'', ''b'', ''c'', ''d'']"
proof (intro conjI impI)
  assume t: "\<not> list_ex RGX_LIST t"
  show "RGX_LIST_split t = [t]"
    using split_from_plain [OF t, of "[]"] by (simp add: RGX_LIST_split_def)
  assume c: "RGX_LIST c"
  show "RGX_LIST_split (t @ c # rest) = t # RGX_LIST_split rest"
    using split_from_delimiter [OF t c, of "[]" rest] by (simp add: RGX_LIST_split_def)
next
  show "length (RGX_LIST_split v) = Suc (length (filter RGX_LIST v))"
    by (simp add: RGX_LIST_split_def length_split_from)
next
  assume "RGX_LIST d1 \<and> RGX_LIST d2 \<and> RGX_LIST d3"
  then show "RGX_LIST_split (''a'' @ d1 # ''b'' @ d2 # ''c'' @ d3 # ''d'') = [''a'', ''b'', ''c'', ''d'']"
    by (simp add: RGX_LIST_split_def) (simp add: RGX_LIST_def)
next
  show "RGX_LIST_split ''a,b c;d'' = [''a'', ''b'', ''c'', ''d'']"
    by (simp add: RGX_LIST_split_def RGX_LIST_def)
qed

text \<open>
  The theorem of C5 at the piece \<^verbatim>\<open>"ab"\<close>, the value \<^verbatim>\<open>"ab,;c"\<close> and the separators
  semicolon, comma and space.
\<close>

theorem RGX_LIST_split_each_delimiter_witness:
  "RGX_LIST_split ''ab'' = [''ab'']
   \<and> RGX_LIST_split ''ab,;c'' = ''ab'' # RGX_LIST_split '';c''
   \<and> RGX_LIST_split ''a;b,c d'' = [''a'', ''b'', ''c'', ''d'']"
  using RGX_LIST_split_each_delimiter
    [of "''ab''" "CHR '',''" "'';c''" "[]" "CHR '';''" "CHR '',''" "CHR '' ''"]
  by (simp add: RGX_LIST_def)

text \<open>
  Claim C5 as it is written fails: a run of two delimiters is not one separator. In
  \<^verbatim>\<open>"a, b c;d"\<close> the comma and the space are two cuts with an empty piece between them, so
  it is not true that the four tokens come out whatever runs of delimiters separate them.
\<close>

theorem RGX_LIST_split_runs_counterexample:
  "RGX_LIST_split ''a, b c;d'' = [''a'', [], ''b'', ''c'', ''d'']
   \<and> \<not> (\<forall>r1 r2 r3. r1 \<noteq> [] \<and> r2 \<noteq> [] \<and> r3 \<noteq> [] \<and> list_all RGX_LIST (r1 @ r2 @ r3) \<longrightarrow>
          RGX_LIST_split (''a'' @ r1 @ ''b'' @ r2 @ ''c'' @ r3 @ ''d'') = [''a'', ''b'', ''c'', ''d''])"
proof
  show "RGX_LIST_split ''a, b c;d'' = [''a'', [], ''b'', ''c'', ''d'']"
    by (simp add: RGX_LIST_split_def RGX_LIST_def)
  show "\<not> (\<forall>r1 r2 r3. r1 \<noteq> [] \<and> r2 \<noteq> [] \<and> r3 \<noteq> [] \<and> list_all RGX_LIST (r1 @ r2 @ r3) \<longrightarrow>
          RGX_LIST_split (''a'' @ r1 @ ''b'' @ r2 @ ''c'' @ r3 @ ''d'') = [''a'', ''b'', ''c'', ''d''])"
  proof
    assume runs: "\<forall>r1 r2 r3. r1 \<noteq> [] \<and> r2 \<noteq> [] \<and> r3 \<noteq> [] \<and> list_all RGX_LIST (r1 @ r2 @ r3) \<longrightarrow>
          RGX_LIST_split (''a'' @ r1 @ ''b'' @ r2 @ ''c'' @ r3 @ ''d'') = [''a'', ''b'', ''c'', ''d'']"
    have "RGX_LIST_split (''a'' @ '', '' @ ''b'' @ '' '' @ ''c'' @ '';'' @ ''d'')
            = [''a'', ''b'', ''c'', ''d'']"
      by (rule runs [rule_format]) (simp add: RGX_LIST_def)
    then show False
      by (simp add: RGX_LIST_split_def RGX_LIST_def)
  qed
qed

section \<open>Laws of the computations\<close>

lemma py_bind_return [simp]: "py_bind (py_return x) k = k x"
  by (simp add: py_bind_def py_return_def)

lemma py_bind_raise [simp]: "py_bind (py_raise x) k = py_raise x"
  by (simp add: py_bind_def py_raise_def)

lemma py_then_return [simp]: "py_then (py_return x) k = k"
  by (simp add: py_then_def)

lemma py_then_raise [simp]: "py_then (py_raise x) k = py_raise x"
  by (simp add: py_then_def)

section \<open>Resolving a command name\<close>

lemma py_then_print:
  "py_then (print s ending) k w = k (printed s ending w)"
  by (simp add: py_then_def py_bind_def print_def)

lemma cmd_names [simp]:
  "name (migrate_cmd e) = ''migrate''" "name (test_cmd e) = ''test''"
  "name (submit_cmd e) = ''submit''" "name (restore_cmd e) = ''restore''"
  "name (checkin_cmd e) = ''checkin''"
  by (simp_all add: migrate_cmd_def test_cmd_def submit_cmd_def restore_cmd_def checkin_cmd_def
        task_def)

lemma cmd_mgr_sorted:
  "cmd_mgr e = [checkin_cmd e, migrate_cmd e, restore_cmd e, submit_cmd e, test_cmd e]"
  by (simp add: cmd_mgr_def register_def)

lemma foreach_print:
  "py_foreach ms (\<lambda>m. print (f m) ending) w =
     (Inr (), printed (concat (map (\<lambda>m. f m @ ending) ms)) [] w)"
proof (induction ms arbitrary: w)
  case Nil
  show ?case by (simp add: py_return_def printed_def)
next
  case (Cons m ms)
  show ?case
    by (simp add: py_then_print Cons.IH) (simp add: printed_def)
qed

lemma find_best_many:
  assumes "1 < length (filter (\<lambda>c. prefix s (name c)) cmds)"
  shows "find_best cmds s w =
          (Inl (SystemExit (PyInt 1)),
           printed (ambiguous_report s (map name (filter (\<lambda>c. prefix s (name c)) cmds))) [] w)"
proof -
  define ms where "ms = filter (\<lambda>c. prefix s (name c)) cmds"
  define head where "head = ''Ambigious command '' @ apostrophe @ s @ apostrophe
                             @ ''; choose from the following:''"
  have "ms \<noteq> []" and "length ms \<noteq> 1"
    using assms by (auto simp: ms_def)
  then have body: "find_best cmds s =
          py_then (py_then (print head newline)
                     (py_foreach ms (\<lambda>m. print (''  '' @ name m) newline)))
            (sys_exit (PyInt 1))"
    unfolding find_best_def Let_def ms_def [symmetric] head_def by simp
  have run: "py_then (py_then (print head newline)
                     (py_foreach ms (\<lambda>m. print (''  '' @ name m) newline)))
            (sys_exit (PyInt 1)) w
        = (Inl (SystemExit (PyInt 1)),
           printed (head @ newline @ concat (map (\<lambda>m. (''  '' @ name m) @ newline) ms)) [] w)"
    unfolding py_then_def py_bind_def foreach_print
    by (simp add: print_def sys_exit_def py_raise_def printed_def)
  have report: "head @ newline @ concat (map (\<lambda>m. (''  '' @ name m) @ newline) ms)
                  = ambiguous_report s (map name ms)"
    by (simp add: head_def ambiguous_report_def comp_def)
  have "find_best cmds s w =
          (Inl (SystemExit (PyInt 1)),
           printed (ambiguous_report s (map name ms)) [] w)"
    by (simp only: body run report)
  then show ?thesis
    unfolding ms_def .
qed

text \<open>
  Claim C4. For every registry and prefix: when exactly one registered command has a
  name starting with the prefix, \<^verbatim>\<open>find_best\<close> returns that command and prints nothing;
  when none has, it reports the unknown command and exits with status 1; when several
  have, it reports the ambiguity, lists the names of all matches in registry order and
  exits with status 1. The module's registry holds checkin, migrate, restore, submit and
  test in this order; there \<^verbatim>\<open>"mi"\<close> and \<^verbatim>\<open>"m"\<close> resolve to the migrate command and \<^verbatim>\<open>"zz"\<close> is
  reported as unknown.
\<close>

theorem find_best_unique_prefix:
  "(filter (\<lambda>c. prefix s (name c)) cmds = [c] \<longrightarrow> find_best cmds s w = (Inr c, w))
   \<and> (filter (\<lambda>c. prefix s (name c)) cmds = [] \<longrightarrow>
        find_best cmds s w =
          (Inl (SystemExit (PyInt 1)),
           printed (unknown_report s) [] w))
   \<and> (1 < length (filter (\<lambda>c. prefix s (name c)) cmds) \<longrightarrow>
        find_best cmds s w =
          (Inl (SystemExit (PyInt 1)),
           printed (ambiguous_report s (map name (filter (\<lambda>c. prefix s (name c)) cmds))) [] w))
   \<and> map name (cmd_mgr e) = [''checkin'', ''migrate'', ''restore'', ''submit'', ''test'']
   \<and> find_best (cmd_mgr e) ''mi'' w
       = (Inr (migrate_cmd e), w)
   \<and> find_best (cmd_mgr e) ''m'' w
       = (Inr (migrate_cmd e), w)
   \<and> fst (find_best (cmd_mgr e) ''zz'' w) = Inl (SystemExit (PyInt 1))
   \<and> exit_status (fst (find_best (cmd_mgr e) ''zz'' w)) = 1
   \<and> (\<not> redirected w \<longrightarrow>
        stdout (snd (find_best (cmd_mgr e) ''zz'' w)) = stdout w @ unknown_report ''zz'')"
proof (intro conjI impI)
  assume "filter (\<lambda>c. prefix s (name c)) cmds = [c]"
  then show "find_best cmds s w = (Inr c, w)"
    by (simp add: find_best_def py_return_def)
next
  assume "filter (\<lambda>c. prefix s (name c)) cmds = []"
  then show "find_best cmds s w =
          (Inl (SystemExit (PyInt 1)),
           printed (unknown_report s) [] w)"
    by (simp add: find_best_def py_then_print sys_exit_def py_raise_def unknown_report_def
          printed_def)
next
  assume "1 < length (filter (\<lambda>c. prefix s (name c)) cmds)"
  then show "find_best cmds s w =
          (Inl (SystemExit (PyInt 1)),
           printed (ambiguous_report s (map name (filter (\<lambda>c. prefix s (name c)) cmds))) [] w)"
    by (rule find_best_many)
next
  show "map name (cmd_mgr e) = [''checkin'', ''migrate'', ''restore'', ''submit'', ''test'']"
    by (simp add: cmd_mgr_sorted)
next
  show "find_best (cmd_mgr e) ''mi'' w
       = (Inr (migrate_cmd e), w)"
    by (simp add: cmd_mgr_sorted find_best_def py_return_def)
next
  show "find_best (cmd_mgr e) ''m'' w
       = (Inr (migrate_cmd e), w)"
    by (simp add: cmd_mgr_sorted find_best_def py_return_def)
next
  show "fst (find_best (cmd_mgr e) ''zz'' w) = Inl (SystemExit (PyInt 1))"
    by (simp add: cmd_mgr_sorted find_best_def py_then_print sys_exit_def py_raise_def)
  then show "exit_status (fst (find_best (cmd_mgr e) ''zz'' w)) = 1"
    by simp
next
  assume "\<not> redirected w"
  then show "stdout (snd (find_best (cmd_mgr e) ''zz'' w)) = stdout w @ unknown_report ''zz''"
    by (simp add: cmd_mgr_sorted find_best_def py_then_print sys_exit_def py_raise_def
          unknown_report_def printed_def)
qed

text \<open>
  The theorem of C4 on the module's registry: \<^verbatim>\<open>"sub"\<close> has one match, \<^verbatim>\<open>"x"\<close> none, and the
  empty prefix all five.
\<close>

theorem find_best_unique_prefix_witness:
  "find_best (cmd_mgr (tree_env (tool 0) 0)) ''sub'' (start [])
     = (Inr (submit_cmd (tree_env (tool 0) 0)), start [])
   \<and> find_best (cmd_mgr (tree_env (tool 0) 0)) ''x'' (start [])
     = (Inl (SystemExit (PyInt 1)), (start [])\<lparr>stdout := unknown_report ''x''\<rparr>)
   \<and> find_best (cmd_mgr (tree_env (tool 0) 0)) [] (start [])
     = (Inl (SystemExit (PyInt 1)),
        (start [])\<lparr>stdout :=
           ambiguous_report [] [''checkin'', ''migrate'', ''restore'', ''submit'', ''test'']\<rparr>)
   \<and> stdout (snd (find_best (cmd_mgr (tree_env (tool 0) 0)) ''zz'' (start [])))
     = unknown_report ''zz''"
  using
    find_best_unique_prefix [of "''sub''" "cmd_mgr (tree_env (tool 0) 0)"
      "submit_cmd (tree_env (tool 0) 0)"
      "start []" "tree_env (tool 0) 0"]
    find_best_unique_prefix [of "''x''" "cmd_mgr (tree_env (tool 0) 0)" _ "start []" "tree_env (tool 0) 0"]
    find_best_unique_prefix [of "[]" "cmd_mgr (tree_env (tool 0) 0)" _ "start []" "tree_env (tool 0) 0"]
  by (simp add: cmd_mgr_sorted start_def printed_def)

section \<open>Accumulating a list-valued option\<close>

lemma getattr_setattr [simp]: "getattr (setattr ns dest v) dest = v"
  by (simp add: getattr_def setattr_def)

lemma setattr_setattr [simp]: "setattr (setattr ns dest v) dest v' = setattr ns dest v'"
  by (simp add: setattr_def)

lemma setattr_getattr [simp]: "setattr ns dest (getattr ns dest) = ns"
  by (simp add: getattr_def setattr_def)

lemma py_map_ExtendAction_parse:
  "py_map ExtendAction_parse xs = py_return xs"
  by (induction xs) (simp_all add: ExtendAction_parse_def)

lemma py_fold_pure:
  assumes "\<And>s x. f s x = py_return (g s x)"
  shows "py_fold f xs s = py_return (foldl g s xs)"
  by (induction xs arbitrary: s) (simp_all add: assms)

lemma accumulated_twice:
  "accumulated (accumulated current vs) ws = accumulated current (vs @ ws)"
  by (simp add: accumulated_def held_def)

lemma ExtendAction_extend_pure:
  "ExtendAction_extend ExtendAction_parse dest ns v =
     py_return (setattr ns dest (accumulated (getattr ns dest) [v]))"
  by (simp add: ExtendAction_extend_def held_def accumulated_def py_map_ExtendAction_parse)

lemma foldl_accumulated:
  "foldl (\<lambda>ns x. setattr ns dest (accumulated (getattr ns dest) (h x))) ns xs =
     setattr ns dest (accumulated (getattr ns dest) (concat (map h xs)))"
proof (induction xs arbitrary: ns)
  case Nil
  show ?case by (simp add: accumulated_def)
next
  case (Cons x xs)
  show ?case by (simp add: Cons.IH accumulated_twice)
qed

lemma ExtendAction_call_pure:
  "ExtendAction_call ExtendAction_parse dest ns occ =
     py_return (setattr ns dest (accumulated (getattr ns dest) (occurrence_values occ)))"
proof (cases occ)
  case (Single v)
  then show ?thesis
    by (simp add: ExtendAction_call_def occurrence_values_def ExtendAction_extend_pure)
next
  case (Multiple vs)
  have "py_fold (ExtendAction_extend ExtendAction_parse dest) vs ns =
          py_return (foldl (\<lambda>ns v. setattr ns dest (accumulated (getattr ns dest) [v])) ns vs)"
    by (rule py_fold_pure) (rule ExtendAction_extend_pure)
  also have "foldl (\<lambda>ns v. setattr ns dest (accumulated (getattr ns dest) [v])) ns vs =
          setattr ns dest (accumulated (getattr ns dest) (concat (map (\<lambda>v. [v]) vs)))"
    by (rule foldl_accumulated)
  finally have "py_fold (ExtendAction_extend ExtendAction_parse dest) vs ns =
          py_return (setattr ns dest (accumulated (getattr ns dest) vs))"
    by simp
  with Multiple show ?thesis
    by (simp add: ExtendAction_call_def occurrence_values_def)
qed

lemma fold_ExtendAction_call:
  "py_fold (ExtendAction_call ExtendAction_parse dest) occs ns =
     py_return (setattr ns dest
                  (accumulated (getattr ns dest) (concat (map occurrence_values occs))))"
proof -
  have "py_fold (ExtendAction_call ExtendAction_parse dest) occs ns =
     py_return (foldl (\<lambda>ns occ. setattr ns dest
                         (accumulated (getattr ns dest) (occurrence_values occ))) ns occs)"
    by (rule py_fold_pure) (rule ExtendAction_call_pure)
  then show ?thesis
    by (simp only: foldl_accumulated)
qed

lemma parse_option_ExtendAction:
  "parse_option ExtendAction_parse dest dflt occs ns =
     py_return (setattr ns dest (accumulated dflt (concat (map occurrence_values occs))))"
  by (simp add: parse_option_def fold_ExtendAction_call)

text \<open>
  Claim C7. Parsing a list-valued option leaves in its attribute the configured default
  when no value was supplied, and otherwise the default (\<^verbatim>\<open>None\<close> counting as empty)
  followed by the pieces of every supplied value, in the order of the occurrences:
  earlier values are kept. Never supplied, the option holds its default, which for
  \<^verbatim>\<open>--ignore\<close> is the empty list. Supplying \<^verbatim>\<open>"a"\<close> and then \<^verbatim>\<open>"b,c"\<close> gives a, b, c, from an
  unset attribute, from an empty default, and as the two values of one occurrence.
\<close>

theorem ExtendAction_accumulates:
  "parse_option ExtendAction_parse dest dflt occs ns w =
     (Inr (setattr ns dest
             (if concat (map occurrence_values occs) = [] then dflt
              else Some (held dflt
                         @ concat (map RGX_LIST_split (concat (map occurrence_values occs)))))),
      w)
   \<and> parse_option ExtendAction_parse dest dflt [] ns w = (Inr (setattr ns dest dflt), w)
   \<and> parse_option ExtendAction_parse ''ignore'' ignore_default [] ns w
       = (Inr (setattr ns ''ignore'' (Some [])), w)
   \<and> parse_option ExtendAction_parse dest None [Single ''a'', Single ''b,c''] ns w
       = (Inr (setattr ns dest (Some [''a'', ''b'', ''c''])), w)
   \<and> parse_option ExtendAction_parse dest (Some []) [Single ''a'', Single ''b,c''] ns w
       = (Inr (setattr ns dest (Some [''a'', ''b'', ''c''])), w)
   \<and> parse_option ExtendAction_parse dest (Some []) [Multiple [''a'', ''b,c'']] ns w
       = (Inr (setattr ns dest (Some [''a'', ''b'', ''c''])), w)"
  by (simp add: parse_option_ExtendAction ignore_default_def accumulated_def
        occurrence_values_def held_def RGX_LIST_split_def RGX_LIST_def py_return_def)

section \<open>The task wrapper, step by step\<close>

lemma printed_frame [simp]:
  "files (printed s ending w) = files w"
  "spawned (printed s ending w) = spawned w"
  "pytest_runs (printed s ending w) = pytest_runs w"
  "redirected (printed s ending w) = redirected w"
  by (simp_all add: printed_def)

lemma entered_frame [simp]:
  "files (entered action opts target w) = files w"
  "spawned (entered action opts target w) = spawned w"
  "pytest_runs (entered action opts target w) = pytest_runs w"
  by (simp_all add: entered_def)

lemma resumed_frame [simp]:
  "files (resumed opts w w') = files w'"
  "spawned (resumed opts w w') = spawned w'"
  "pytest_runs (resumed opts w w') = pytest_runs w'"
  by (simp_all add: resumed_def)

lemma wrapper_run:
  assumes "f opts target (entered action opts target w) = (r, w')"
  shows "wrapper action f opts target w =
           (case r of
              Inr v \<Rightarrow> (Inr PyNone, printed ''Done'' newline (resumed opts w w'))
            | Inl x \<Rightarrow> except_clauses x (resumed opts w w'))"
proof (cases "truthy (verbose opts)")
  case True
  with assms show ?thesis
    by (cases r)
       (simp_all add: wrapper_def entered_def resumed_def py_then_def py_bind_def py_except_def
          print_def py_return_def)
next
  case False
  with assms show ?thesis
    by (cases r)
       (simp_all add: wrapper_def entered_def resumed_def py_then_def py_bind_def py_except_def
          print_def py_return_def capture_def)
qed

lemma except_clauses_eval:
  "except_clauses (CalledProcessError rc (PyBytes b)) w
     = (Inl (SystemExit (PyInt rc)), printed (strip b) newline w)"
  "except_clauses (CalledProcessError rc PyNone) w = (Inl AttributeError, w)"
  "except_clauses (CalledProcessError rc (PyInt n)) w = (Inl AttributeError, w)"
  "except_clauses (CalledProcessError rc (PyStr t)) w = (Inl AttributeError, w)"
  "except_clauses (SystemExit code) w = (Inl (SystemExit code), printed ''Failed'' newline w)"
  "except_clauses AttributeError w = (Inl AttributeError, w)"
  "except_clauses TypeError w = (Inl TypeError, w)"
  "except_clauses OSError w = (Inl OSError, w)"
  by (simp_all add: except_clauses_def decode_def py_raise_def py_bind_def py_then_def
        py_return_def sys_exit_def print_def)

lemma except_clauses_raises: "\<exists>x. fst (except_clauses y w) = Inl x"
proof (cases y)
  case (CalledProcessError rc out)
  then show ?thesis by (cases out) (simp_all add: except_clauses_eval)
qed (simp_all add: except_clauses_eval)

lemma except_clauses_frame:
  "files (snd (except_clauses y w)) = files w
   \<and> spawned (snd (except_clauses y w)) = spawned w
   \<and> pytest_runs (snd (except_clauses y w)) = pytest_runs w"
proof (cases y)
  case (CalledProcessError rc out)
  then show ?thesis by (cases out) (simp_all add: except_clauses_eval)
qed (simp_all add: except_clauses_eval)

lemma wrapper_frame:
  "files (snd (wrapper action f opts target w))
     = files (snd (f opts target (entered action opts target w)))
   \<and> spawned (snd (wrapper action f opts target w))
     = spawned (snd (f opts target (entered action opts target w)))
   \<and> pytest_runs (snd (wrapper action f opts target w))
     = pytest_runs (snd (f opts target (entered action opts target w)))"
proof -
  obtain r w' where run: "f opts target (entered action opts target w) = (r, w')"
    by (cases "f opts target (entered action opts target w)")
  note eq = wrapper_run [where f = f and opts = opts and target = target and action = action
      and w = w, OF run]
  show ?thesis
  proof (cases r)
    case (Inl x)
    with run show ?thesis
      using except_clauses_frame [of x "resumed opts w w'"]
      by (simp add: eq)
  next
    case (Inr v)
    with run show ?thesis
      by (simp add: eq)
  qed
qed

lemma wrapper_returns_None:
  "case fst (wrapper action f opts target w) of Inr v \<Rightarrow> v = PyNone | Inl x \<Rightarrow> True"
proof -
  obtain r w' where run: "f opts target (entered action opts target w) = (r, w')"
    by (cases "f opts target (entered action opts target w)")
  note eq = wrapper_run [where f = f and opts = opts and target = target and action = action
      and w = w, OF run]
  show ?thesis
  proof (cases r)
    case (Inl x)
    with run show ?thesis
      using except_clauses_raises [of x "resumed opts w w'"]
      by (auto simp: eq)
  next
    case (Inr v)
    with run show ?thesis
      by (simp add: eq)
  qed
qed

lemma call_task [simp]: "call (task action f) = wrapper action (call f)"
  by (simp add: task_def)

section \<open>External programs never return\<close>

lemma py_bind_fails: "fst (m w) = Inl x \<Longrightarrow> fst (py_bind m k w) = Inl x"
  by (cases "m w") (simp add: py_bind_def)

lemma py_then_fails: "fst (m w) = Inl x \<Longrightarrow> fst (py_then m k w) = Inl x"
  by (simp add: py_then_def py_bind_fails)

lemma terminal_exited:
  assumes "run_program e args (files w) = (Exited rc, fs)"
  shows "terminal e args w =
           (Inl (if rc = 0 then AttributeError else CalledProcessError rc PyNone),
            (printed (join '' '' args) newline w)\<lparr>files := fs, spawned := spawned w @ [args]\<rparr>)"
  using assms
  by (simp add: terminal_def py_then_print py_bind_def check_call_def decode_def py_raise_def)

lemma terminal_not_started:
  assumes "run_program e args (files w) = (NotStarted, fs)"
  shows "terminal e args w = (Inl OSError, (printed (join '' '' args) newline w)\<lparr>files := fs\<rparr>)"
  using assms
  by (simp add: terminal_def py_then_print py_bind_def check_call_def)

lemma terminal_raises: "\<exists>x. fst (terminal e args w) = Inl x"
proof (cases "run_program e args (files w)")
  case (Pair p fs)
  then show ?thesis
    by (cases p) (simp_all add: terminal_exited terminal_not_started)
qed

lemma terminal_success:
  assumes "fst (run_program e args (files w)) = Exited 0"
  shows "fst (terminal e args w) = Inl AttributeError"
proof -
  from assms obtain fs where "run_program e args (files w) = (Exited 0, fs)"
    by (cases "run_program e args (files w)") simp
  then show ?thesis
    by (simp add: terminal_exited)
qed

lemma wrapper_passes_on:
  assumes "fst (f opts target (entered action opts target w)) = Inl x"
    and "x = AttributeError \<or> x = TypeError \<or> x = OSError"
  shows "fst (wrapper action f opts target w) = Inl x"
proof -
  obtain r w' where run: "f opts target (entered action opts target w) = (r, w')"
    by (cases "f opts target (entered action opts target w)")
  note eq = wrapper_run [where f = f and opts = opts and target = target and action = action
      and w = w, OF run]
  from assms run show ?thesis
    by (auto simp: eq except_clauses_eval)
qed

lemma wrapper_fails:
  assumes "fst (f opts target (entered action opts target w)) = Inl x"
  shows "\<exists>y. fst (wrapper action f opts target w) = Inl y"
proof -
  obtain r w' where run: "f opts target (entered action opts target w) = (r, w')"
    by (cases "f opts target (entered action opts target w)")
  note eq = wrapper_run [where f = f and opts = opts and target = target and action = action
      and w = w, OF run]
  from assms run show ?thesis
    using except_clauses_raises [of x "resumed opts w w'"]
    by (simp add: eq)
qed

lemma submit_fails:
  assumes "\<forall>args fs. fst (run_program e args fs) = Exited 0"
  shows "fst (submit e ex w) = Inl AttributeError"
  by (simp add: submit_def exercism_def Let_def py_then_fails terminal_success assms)

lemma checkin_fails:
  assumes "\<forall>args fs. fst (run_program e args fs) = Exited 0"
  shows "fst (checkin e ex w) = Inl AttributeError"
  by (simp add: checkin_def git_def py_then_fails terminal_success assms)

lemma migrate_fails:
  assumes "\<forall>args fs. fst (run_program e args fs) = Exited 0"
    and "\<not> isfile e (files w) (os_path_join ex ''.solution.json'')"
  shows "fst (migrate e ex w) = Inl AttributeError"
  using assms(2)
  by (simp add: migrate_def os_path_isfile_def py_bind_def exercism_def py_then_fails
        terminal_success assms(1))

lemma restore_run:
  "restore e ex w =
     (case rmtree e ex (files w) of
        (None, fs) \<Rightarrow>
          py_then (git e [''checkout'', ''--'', ex]) (py_return PyNone)
            ((printed (''Removing '' @ ex @ ''/'') newline w)\<lparr>files := fs\<rparr>)
      | (Some x, fs) \<Rightarrow> (Inl x, (printed (''Removing '' @ ex @ ''/'') newline w)\<lparr>files := fs\<rparr>))"
  by (simp add: restore_def py_then_print)
     (simp add: py_then_def py_bind_def shutil_rmtree_def split: prod.splits option.splits)

lemma restore_fails:
  assumes "\<forall>args fs. fst (run_program e args fs) = Exited 0"
  shows "\<exists>x. fst (restore e ex w) = Inl x"
    and "fst (rmtree e ex (files w)) = None \<Longrightarrow> fst (restore e ex w) = Inl AttributeError"
  by (cases "rmtree e ex (files w)"; cases "fst (rmtree e ex (files w))";
      simp add: restore_run git_def py_then_fails terminal_success assms)+

text \<open>
  Claim C2. Whenever the external program exits with status zero, \<^verbatim>\<open>terminal\<close> raises
  an attribute error: \<^verbatim>\<open>check_call\<close> returns the integer 0, which has no \<^verbatim>\<open>decode\<close>. In fact
  \<^verbatim>\<open>terminal\<close> never returns normally. So, when every external program succeeds, the
  submit and checkin commands end in the attribute error, the migrate command does on an
  exercise that is not yet migrated, and the restore command does once the directory
  is removed (and fails in any case).
\<close>

theorem terminal_never_returns:
  "(fst (run_program e args (files w)) = Exited 0 \<longrightarrow> fst (terminal e args w) = Inl AttributeError)
   \<and> (\<exists>x. fst (terminal e args w) = Inl x)
   \<and> ((\<forall>args fs. fst (run_program e args fs) = Exited 0) \<longrightarrow>
         fst (call (submit_cmd e) opts ex w) = Inl AttributeError
       \<and> fst (call (checkin_cmd e) opts ex w) = Inl AttributeError
       \<and> (\<not> isfile e (files w) (os_path_join ex ''.solution.json'') \<longrightarrow>
            fst (call (migrate_cmd e) opts ex w) = Inl AttributeError)
       \<and> (fst (rmtree e ex (files w)) = None \<longrightarrow>
            fst (call (restore_cmd e) opts ex w) = Inl AttributeError)
       \<and> (\<exists>x. fst (call (restore_cmd e) opts ex w) = Inl x))"
proof (intro conjI impI)
  assume "fst (run_program e args (files w)) = Exited 0"
  then show "fst (terminal e args w) = Inl AttributeError"
    by (rule terminal_success)
next
  show "\<exists>x. fst (terminal e args w) = Inl x"
    by (rule terminal_raises)
next
  assume ok: "\<forall>args fs. fst (run_program e args fs) = Exited 0"
  show "fst (call (submit_cmd e) opts ex w) = Inl AttributeError"
    by (simp add: submit_cmd_def wrapper_passes_on submit_fails [OF ok])
  show "fst (call (checkin_cmd e) opts ex w) = Inl AttributeError"
    by (simp add: checkin_cmd_def wrapper_passes_on checkin_fails [OF ok])
  show "\<exists>x. fst (call (restore_cmd e) opts ex w) = Inl x"
    using restore_fails(1) [OF ok, of ex "entered ''restoring'' opts ex w"]
    by (auto simp: restore_cmd_def intro: wrapper_fails)
  {
    assume "\<not> isfile e (files w) (os_path_join ex ''.solution.json'')"
    then show "fst (call (migrate_cmd e) opts ex w) = Inl AttributeError"
      by (simp add: migrate_cmd_def wrapper_passes_on migrate_fails [OF ok])
  }
  {
    assume "fst (rmtree e ex (files w)) = None"
    then show "fst (call (restore_cmd e) opts ex w) = Inl AttributeError"
      by (simp add: restore_cmd_def wrapper_passes_on restore_fails(2) [OF ok])
  }
qed

lemma tool_exit [simp]: "fst (run_program (tree_env (tool rc) code) args fs) = Exited rc"
  by (simp add: tree_env_def tool_def)

text \<open>
  The theorem of C2 in the concrete environment whose programs all succeed, on the
  exercise \<^verbatim>\<open>two-fer\<close>.
\<close>

theorem terminal_never_returns_witness:
  "fst (run_program (tree_env (tool 0) 0) [''git'', ''add'', ''two-fer''] (files (start demo_tree)))
     = Exited 0
   \<and> fst (terminal (tree_env (tool 0) 0) [''git'', ''add'', ''two-fer''] (start demo_tree))
     = Inl AttributeError
   \<and> (\<forall>args fs. fst (run_program (tree_env (tool 0) 0) args fs) = Exited 0)
   \<and> fst (call (submit_cmd (tree_env (tool 0) 0)) demo_opts ''two-fer'' (start demo_tree))
     = Inl AttributeError
   \<and> fst (call (checkin_cmd (tree_env (tool 0) 0)) demo_opts ''two-fer'' (start demo_tree))
     = Inl AttributeError
   \<and> \<not> isfile (tree_env (tool 0) 0) (files (start demo_tree))
         (os_path_join ''two-fer'' ''.solution.json'')
   \<and> fst (call (migrate_cmd (tree_env (tool 0) 0)) demo_opts ''two-fer'' (start demo_tree))
     = Inl AttributeError
   \<and> fst (rmtree (tree_env (tool 0) 0) ''two-fer'' (files (start demo_tree))) = None
   \<and> fst (call (restore_cmd (tree_env (tool 0) 0)) demo_opts ''two-fer'' (start demo_tree))
     = Inl AttributeError"
proof -
  have tree:
    "\<not> isfile (tree_env (tool 0) 0) (files (start demo_tree))
         (os_path_join ''two-fer'' ''.solution.json'')"
    "fst (rmtree (tree_env (tool 0) 0) ''two-fer'' (files (start demo_tree))) = None"
    by (simp_all add: tree_env_def start_def demo_tree_def os_path_join_def)
  show ?thesis
    using terminal_never_returns [of "tree_env (tool 0) 0" "[''git'', ''add'', ''two-fer'']"
        "start demo_tree" demo_opts "''two-fer''"] tree
    by simp
qed

section \<open>Migrating an exercise that is already migrated\<close>

lemma wrapper_returns:
  assumes "fst (f opts target (entered action opts target w)) = Inr v"
  shows "fst (wrapper action f opts target w) = Inr PyNone"
proof -
  obtain r w' where run: "f opts target (entered action opts target w) = (r, w')"
    by (cases "f opts target (entered action opts target w)")
  note eq = wrapper_run [where f = f and opts = opts and target = target and action = action
      and w = w, OF run]
  from assms run show ?thesis
    by (simp add: eq)
qed

lemma migrate_marker:
  assumes "isfile e (files w) (os_path_join ex ''.solution.json'')"
  shows "migrate e ex w = (Inr PyNone, printed (ex @ '' has already been migrated'') newline w)"
  using assms
  by (simp add: migrate_def os_path_isfile_def py_bind_def py_then_print py_return_def)

text \<open>
  Claim C8. When the marker file \<^verbatim>\<open>.solution.json\<close> is present in the exercise
  directory, \<^verbatim>\<open>migrate\<close> only prints its report and returns \<^verbatim>\<open>None\<close>: no program is started
  (so nothing is downloaded) and the file system is the one it started with (so nothing
  is copied or removed), whatever the environment does when asked; the same holds for
  the call of the decorated command, which returns without raising.
\<close>

theorem migrate_marker_is_noop:
  "isfile e (files w) (os_path_join ex ''.solution.json'') \<longrightarrow>
     migrate e ex w = (Inr PyNone, printed (ex @ '' has already been migrated'') newline w)
   \<and> files (snd (migrate e ex w)) = files w
   \<and> spawned (snd (migrate e ex w)) = spawned w
   \<and> fst (call (migrate_cmd e) opts ex w) = Inr PyNone
   \<and> files (snd (call (migrate_cmd e) opts ex w)) = files w
   \<and> spawned (snd (call (migrate_cmd e) opts ex w)) = spawned w"
proof
  assume marker: "isfile e (files w) (os_path_join ex ''.solution.json'')"
  then have inside:
    "isfile e (files (entered ''migrating'' opts ex w)) (os_path_join ex ''.solution.json'')"
    by simp
  have frame:
    "files (snd (call (migrate_cmd e) opts ex w))
       = files (snd (migrate e ex (entered ''migrating'' opts ex w)))"
    "spawned (snd (call (migrate_cmd e) opts ex w))
       = spawned (snd (migrate e ex (entered ''migrating'' opts ex w)))"
    using wrapper_frame [of "''migrating''" "\<lambda>opts. migrate e" opts ex w]
    by (simp_all add: migrate_cmd_def)
  show "migrate e ex w = (Inr PyNone, printed (ex @ '' has already been migrated'') newline w)
   \<and> files (snd (migrate e ex w)) = files w
   \<and> spawned (snd (migrate e ex w)) = spawned w
   \<and> fst (call (migrate_cmd e) opts ex w) = Inr PyNone
   \<and> files (snd (call (migrate_cmd e) opts ex w)) = files w
   \<and> spawned (snd (call (migrate_cmd e) opts ex w)) = spawned w"
    by (simp add: migrate_marker [OF marker] frame migrate_marker [OF inside])
       (simp add: migrate_cmd_def wrapper_returns migrate_marker [OF inside])
qed

text \<open>The theorem of C8 on the migrated exercise \<^verbatim>\<open>two-fer\<close>.\<close>

theorem migrate_marker_is_noop_witness:
  "isfile (tree_env (tool 0) 0) (files (start migrated_tree))
     (os_path_join ''two-fer'' ''.solution.json'')
   \<and> migrate (tree_env (tool 0) 0) ''two-fer'' (start migrated_tree)
       = (Inr PyNone,
          (start migrated_tree)\<lparr>stdout := ''two-fer has already been migrated'' @ newline\<rparr>)
   \<and> fst (call (migrate_cmd (tree_env (tool 0) 0)) demo_opts ''two-fer'' (start migrated_tree))
       = Inr PyNone
   \<and> files (snd (call (migrate_cmd (tree_env (tool 0) 0)) demo_opts ''two-fer''
                    (start migrated_tree))) = migrated_tree
   \<and> spawned (snd (call (migrate_cmd (tree_env (tool 0) 0)) demo_opts ''two-fer''
                      (start migrated_tree))) = []"
proof -
  have marker: "isfile (tree_env (tool 0) 0) (files (start migrated_tree))
     (os_path_join ''two-fer'' ''.solution.json'')"
    by (simp add: tree_env_def start_def migrated_tree_def os_path_join_def suffix_to_prefix)
  show ?thesis
    using migrate_marker_is_noop [of "tree_env (tool 0) 0" "start migrated_tree" "''two-fer''"
        demo_opts] marker
    by (simp add: printed_def) (simp add: start_def)
qed

section \<open>The timeout of the test command\<close>

lemma test_timeout:
  assumes "timeout opts = Some t"
  shows "test e opts ex w = (Inl TypeError, w)"
  using assms by (simp add: test_def str_join_def) (simp add: py_raise_def)

lemma test_no_timeout:
  assumes "timeout opts = None"
  shows "test e opts ex w =
           (Inr (PyInt (fst (pytest_main e [PyStr ''-x'', PyStr ex] (files w)))),
            (printed (''pytest -x '' @ ex) newline w)
              \<lparr>files := snd (pytest_main e [PyStr ''-x'', PyStr ex] (files w)),
               pytest_runs := pytest_runs w @ [[PyStr ''-x'', PyStr ex]]\<rparr>)"
  using assms
  by (cases "pytest_main e [PyStr ''-x'', PyStr ex] (files w)")
     (simp add: test_def str_join_def py_then_print py_bind_def pytest_def py_return_def Let_def)

text \<open>
  Claim C10. With a timeout configured, \<^verbatim>\<open>test\<close> puts the integer itself into the
  argument list, and joining the list for the echoed command line raises a type error:
  \<^verbatim>\<open>test\<close> ends there with the state untouched, the decorated command lets the error
  through (exit status 1), and the test runner has not been called. Without a timeout
  the runner is called once, with \<^verbatim>\<open>-x\<close> and the exercise.
\<close>

theorem test_timeout_type_error:
  "(timeout opts = Some t \<longrightarrow>
      test e opts ex w = (Inl TypeError, w)
    \<and> fst (call (test_cmd e) opts ex w) = Inl TypeError
    \<and> exit_status (fst (call (test_cmd e) opts ex w)) = 1
    \<and> pytest_runs (snd (call (test_cmd e) opts ex w)) = pytest_runs w)
   \<and> (timeout opts = None \<longrightarrow>
      pytest_runs (snd (call (test_cmd e) opts ex w)) = pytest_runs w @ [[PyStr ''-x'', PyStr ex]])"
proof (intro conjI impI)
  assume t: "timeout opts = Some t"
  show "test e opts ex w = (Inl TypeError, w)"
    by (rule test_timeout [OF t])
  show raised: "fst (call (test_cmd e) opts ex w) = Inl TypeError"
    by (simp add: test_cmd_def wrapper_passes_on test_timeout [OF t])
  then show "exit_status (fst (call (test_cmd e) opts ex w)) = 1"
    by simp
  show "pytest_runs (snd (call (test_cmd e) opts ex w)) = pytest_runs w"
    using wrapper_frame [of "''testing''" "test e" opts ex w]
    by (simp add: test_cmd_def test_timeout [OF t])
next
  assume t: "timeout opts = None"
  show "pytest_runs (snd (call (test_cmd e) opts ex w)) = pytest_runs w @ [[PyStr ''-x'', PyStr ex]]"
    using wrapper_frame [of "''testing''" "test e" opts ex w]
    by (simp add: test_cmd_def test_no_timeout [OF t])
qed

text \<open>The theorem of C10 with \<^verbatim>\<open>-t 5\<close> and without a timeout, on the exercise \<^verbatim>\<open>two-fer\<close>.\<close>

theorem test_timeout_type_error_witness:
  "timeout (demo_opts\<lparr>timeout := Some 5\<rparr>) = Some 5
   \<and> test (tree_env (tool 0) 0) (demo_opts\<lparr>timeout := Some 5\<rparr>) ''two-fer'' (start demo_tree)
       = (Inl TypeError, start demo_tree)
   \<and> fst (call (test_cmd (tree_env (tool 0) 0)) (demo_opts\<lparr>timeout := Some 5\<rparr>) ''two-fer''
             (start demo_tree)) = Inl TypeError
   \<and> pytest_runs (snd (call (test_cmd (tree_env (tool 0) 0)) (demo_opts\<lparr>timeout := Some 5\<rparr>)
                          ''two-fer'' (start demo_tree))) = []
   \<and> timeout demo_opts = None
   \<and> pytest_runs (snd (call (test_cmd (tree_env (tool 0) 0)) demo_opts ''two-fer''
                          (start demo_tree))) = [[PyStr ''-x'', PyStr ''two-fer'']]"
  using
    test_timeout_type_error [of "demo_opts\<lparr>timeout := Some 5\<rparr>" 5 "tree_env (tool 0) 0"
      "''two-fer''" "start demo_tree"]
    test_timeout_type_error [of demo_opts 5 "tree_env (tool 0) 0" "''two-fer''" "start demo_tree"]
  by (simp add: demo_opts_def) (simp add: start_def)

section \<open>The order of the calls in the dispatch loop\<close>

lemma follows_append:
  assumes "follows full (log, Inr u, w')" and "follows rest (log', r, w'')"
  shows "follows (full @ rest) (log @ log', r, w'')"
  using assms
  by (cases r) (auto simp: follows_def butlast_append)

lemma run_calls_append:
  "run_calls opts (xs @ ys) w =
     (case run_calls opts xs w of
        (log, Inl x, w') \<Rightarrow> (log, Inl x, w')
      | (log, Inr u, w') \<Rightarrow>
          (case run_calls opts ys w' of (log', r, w'') \<Rightarrow> (log @ log', r, w'')))"
proof (induction xs arbitrary: w)
  case Nil
  show ?case by (simp split: prod.splits)
next
  case (Cons a xs)
  obtain c ex where a: "a = (c, ex)" by (cases a)
  obtain r w1 where step: "call c opts ex w = (r, w1)" by (cases "call c opts ex w")
  show ?case
  proof (cases r)
    case (Inl x)
    with a step show ?thesis by simp
  next
    case (Inr ret)
    show ?thesis
    proof (cases "none_or_zero ret")
      case False
      with a step Inr show ?thesis by simp
    next
      case True
      with a step Inr show ?thesis
        by (simp add: Cons.IH [of w1] split: prod.splits sum.splits)
    qed
  qed
qed

lemma for_commands_run_calls:
  "for_commands opts cmds ex w = run_calls opts (map (\<lambda>c. (c, ex)) cmds) w"
proof (induction cmds arbitrary: w)
  case Nil
  show ?case by simp
next
  case (Cons c cs)
  obtain r w1 where step: "call c opts ex w = (r, w1)" by (cases "call c opts ex w")
  show ?case
  proof (cases r)
    case (Inl x)
    with step show ?thesis by simp
  next
    case (Inr ret)
    with step show ?thesis by (simp add: Cons.IH [of w1])
  qed
qed

lemma for_targets_run_calls:
  "for_targets opts cmds exs w = run_calls opts (calls_for opts cmds exs) w"
proof (induction exs arbitrary: w)
  case Nil
  show ?case by (simp add: calls_for_def)
next
  case (Cons ex exs)
  show ?case
  proof (cases "ex \<in> set (ignore opts)")
    case True
    then show ?thesis
      using Cons.IH [of w] by (simp add: calls_for_def)
  next
    case False
    have split: "calls_for opts cmds (ex # exs) = map (\<lambda>c. (c, ex)) cmds @ calls_for opts cmds exs"
      using False by (simp add: calls_for_def)
    obtain log r w1 where step: "run_calls opts (map (\<lambda>c. (c, ex)) cmds) w = (log, r, w1)"
      by (cases "run_calls opts (map (\<lambda>c. (c, ex)) cmds) w")
    show ?thesis
    proof (cases r)
      case (Inl x)
      with step False show ?thesis
        by (simp add: split run_calls_append for_commands_run_calls)
    next
      case (Inr u)
      with step False show ?thesis
        by (simp add: split run_calls_append for_commands_run_calls Cons.IH [of w1])
    qed
  qed
qed

lemma for_patterns_run_listed:
  "for_patterns e opts cmds ps w = run_listed e opts cmds ps w"
  by (induction ps arbitrary: w)
     (simp_all add: for_targets_run_calls split: prod.splits sum.splits)

lemma run_calls_follows:
  "follows (named calls) (run_calls opts calls w)"
proof (induction calls arbitrary: w)
  case Nil
  show ?case by (simp add: follows_def named_def)
next
  case (Cons a calls)
  obtain c ex where a: "a = (c, ex)" by (cases a)
  obtain r w1 where step: "call c opts ex w = (r, w1)"
    by (cases "call c opts ex w")
  show ?case
  proof (cases r)
    case (Inl x)
    with a step show ?thesis
      by (simp add: follows_def made_def stopped_by_def named_def)
  next
    case (Inr ret)
    show ?thesis
    proof (cases "none_or_zero ret")
      case False
      with a step Inr show ?thesis
        by (simp add: follows_def made_def stopped_by_def named_def)
    next
      case True
      obtain log r' w2 where rest: "run_calls opts calls w1 = (log, r', w2)"
        by (cases "run_calls opts calls w1")
      have first: "follows [(name c, ex)] ([(name c, ex, Inr ret)], Inr (), w1)"
        using True by (simp add: follows_def made_def succeeded_def)
      have "follows ([(name c, ex)] @ named calls) ([(name c, ex, Inr ret)] @ log, r', w2)"
        using first Cons.IH [of w1] unfolding rest by (rule follows_append)
      with a step Inr True rest show ?thesis
        by (simp add: named_def)
    qed
  qed
qed



lemma run_calls_keeps:
  assumes keep: "\<And>c ex w. c \<in> set cmds \<Longrightarrow>
                  glob e (files (snd (call c opts ex w))) p = glob e (files w) p"
    and "fst ` set calls \<subseteq> set cmds"
  shows "glob e (files (snd (snd (run_calls opts calls w)))) p = glob e (files w) p"
  using assms(2)
proof (induction calls arbitrary: w)
  case Nil
  show ?case by simp
next
  case (Cons a calls)
  obtain c ex where a: "a = (c, ex)" by (cases a)
  obtain r w1 where step: "call c opts ex w = (r, w1)"
    by (cases "call c opts ex w")
  from Cons.prems a have c: "c \<in> set cmds" and rest: "fst ` set calls \<subseteq> set cmds"
    by auto
  have w1: "glob e (files w1) p = glob e (files w) p"
    using keep [OF c, of ex w] step by simp
  show ?case
  proof (cases r)
    case (Inl x)
    with a step w1 show ?thesis by simp
  next
    case (Inr ret)
    show ?thesis
    proof (cases "none_or_zero ret")
      case False
      with a step Inr w1 show ?thesis by simp
    next
      case True
      obtain log r' w2 where run: "run_calls opts calls w1 = (log, r', w2)"
        by (cases "run_calls opts calls w1")
      have "glob e (files w2) p = glob e (files w1) p"
        using Cons.IH [OF rest, of w1] by (simp add: run)
      with a step Inr w1 True run show ?thesis
        by simp
    qed
  qed
qed

lemma calls_for_cmds: "fst ` set (calls_for opts cmds targets) \<subseteq> set cmds"
  by (auto simp: calls_for_def)

lemma run_listed_flat:
  assumes keep: "\<And>c ex w p. c \<in> set cmds \<Longrightarrow> p \<in> set ps \<Longrightarrow>
                  glob e (files (snd (call c opts ex w))) p = glob e (files w) p"
  shows "run_listed e opts cmds ps w =
           run_calls opts (concat (map (\<lambda>p. calls_for opts cmds (glob e (files w) p)) ps)) w"
  using keep
proof (induction ps arbitrary: w)
  case Nil
  show ?case by simp
next
  case (Cons p ps)
  obtain log r w1 where step:
    "run_calls opts (calls_for opts cmds (glob e (files w) p)) w = (log, r, w1)"
    by (cases "run_calls opts (calls_for opts cmds (glob e (files w) p)) w")
  have same: "glob e (files w1) q = glob e (files w) q" if "q \<in> set ps" for q
  proof -
    have "glob e (files (snd (snd (run_calls opts (calls_for opts cmds (glob e (files w) p)) w)))) q
            = glob e (files w) q"
      using that by (intro run_calls_keeps [where cmds = cmds] Cons.prems calls_for_cmds) simp_all
    then show ?thesis by (simp add: step)
  qed
  have rest: "run_listed e opts cmds ps w1 =
           run_calls opts (concat (map (\<lambda>p. calls_for opts cmds (glob e (files w1) p)) ps)) w1"
    by (rule Cons.IH) (simp add: Cons.prems)
  have plan: "concat (map (\<lambda>p. calls_for opts cmds (glob e (files w1) p)) ps)
                = concat (map (\<lambda>p. calls_for opts cmds (glob e (files w) p)) ps)"
    using same by (simp cong: map_cong)
  show ?case
    by (cases r) (simp_all add: step run_calls_append rest plan)
qed

lemma run_calls_single:
  "run_calls opts [(c, ex)] w =
     (case call c opts ex w of
        (Inl x, w') \<Rightarrow> ([(name c, ex, Inl x)], Inl x, w')
      | (Inr ret, w') \<Rightarrow>
          ([(name c, ex, Inr ret)],
           if none_or_zero ret then Inr () else Inl (SystemExit ret), w'))"
  by (simp split: prod.splits sum.splits)

text \<open>
  Claim C6. The dispatch loop is the loop of the specification, in every environment and
  for every list of commands: the patterns are taken in order, each is expanded as a
  glob in the state reached when its turn comes, the targets in the ignore list are
  skipped, and for each remaining target, in the order of the listing, every command is
  called in order, each call in the state the one before left; the first call that
  raises, or returns something that is neither \<^verbatim>\<open>None\<close> nor 0, ends the run (the process
  exits with the object returned), and no further call is made. The statement spells
  this out for one pattern and for two, where the second pattern is expanded in the state
  that the calls of the first have left. When the commands do not change the listing of
  any pattern, the run is the single sequence of calls for all listings taken at the
  start. Of every such sequence the record of the run is an initial part, every recorded
  call but the last returned \<^verbatim>\<open>None\<close> or 0, and the last is the one that stopped the loop
  if it was stopped; a sequence is run call by call, and an empty one does nothing. For
  the targets ex1, ex2 and the commands cmdA, cmdB the calls are cmdA(ex1), cmdB(ex1),
  cmdA(ex2), cmdB(ex2); with ex1 ignored they are cmdA(ex2), cmdB(ex2).
\<close>

theorem dispatch_order:
  "dispatch e opts cmds w = run_listed e opts cmds (exercise opts) w
   \<and> (exercise opts = [p] \<longrightarrow>
        dispatch e opts cmds w = run_calls opts (calls_for opts cmds (glob e (files w) p)) w)
   \<and> (keeps_listings e opts cmds \<longrightarrow>
        dispatch e opts cmds w =
          run_calls opts
            (concat (map (\<lambda>p. calls_for opts cmds (glob e (files w) p)) (exercise opts))) w)
   \<and> (case run_calls opts calls w of
         (log, r, w') \<Rightarrow>
           list_all succeeded (butlast log)
         \<and> prefix (map made log) (named calls)
         \<and> (case r of
               Inr u \<Rightarrow> list_all succeeded log \<and> map made log = named calls
             | Inl x \<Rightarrow> log \<noteq> [] \<and> stopped_by (last log) x))
   \<and> run_calls opts [(c, ex)] w =
       (case call c opts ex w of
          (Inl x, w') \<Rightarrow> ([(name c, ex, Inl x)], Inl x, w')
        | (Inr ret, w') \<Rightarrow>
            ([(name c, ex, Inr ret)],
             if none_or_zero ret then Inr () else Inl (SystemExit ret), w'))
   \<and> run_calls opts (xs @ ys) w =
       (case run_calls opts xs w of
          (log, Inl x, w') \<Rightarrow> (log, Inl x, w')
        | (log, Inr u, w') \<Rightarrow>
            (case run_calls opts ys w' of (log', r, w'') \<Rightarrow> (log @ log', r, w'')))
   \<and> (ignore opts = [] \<longrightarrow>
        calls_for opts [cmdA, cmdB] [ex1, ex2]
          = [(cmdA, ex1), (cmdB, ex1), (cmdA, ex2), (cmdB, ex2)])
   \<and> (ex1 \<in> set (ignore opts) \<and> ex2 \<notin> set (ignore opts) \<longrightarrow>
        calls_for opts [cmdA, cmdB] [ex1, ex2] = [(cmdA, ex2), (cmdB, ex2)])
   \<and> (exercise opts = [p, q] \<longrightarrow>
        dispatch e opts cmds w =
          (case run_calls opts (calls_for opts cmds (glob e (files w) p)) w of
             (log, Inl x, w') \<Rightarrow> (log, Inl x, w')
           | (log, Inr u, w') \<Rightarrow>
               (case run_calls opts (calls_for opts cmds (glob e (files w') q)) w' of
                  (log', r, w'') \<Rightarrow> (log @ log', r, w''))))
   \<and> run_calls opts [] w = ([], Inr (), w)"
proof (intro conjI impI)
  show listed: "dispatch e opts cmds w = run_listed e opts cmds (exercise opts) w"
    by (simp add: dispatch_def for_patterns_run_listed)
  {
    assume "exercise opts = [p]"
    then show "dispatch e opts cmds w
                 = run_calls opts (calls_for opts cmds (glob e (files w) p)) w"
      by (simp add: listed split: prod.splits sum.splits)
  }
  {
    assume "keeps_listings e opts cmds"
    then have "run_listed e opts cmds (exercise opts) w =
          run_calls opts
            (concat (map (\<lambda>p. calls_for opts cmds (glob e (files w) p)) (exercise opts))) w"
      by (intro run_listed_flat) (simp add: keeps_listings_def)
    then show "dispatch e opts cmds w =
          run_calls opts
            (concat (map (\<lambda>p. calls_for opts cmds (glob e (files w) p)) (exercise opts))) w"
      by (simp add: listed)
  }
  show "case run_calls opts calls w of
         (log, r, w') \<Rightarrow>
           list_all succeeded (butlast log)
         \<and> prefix (map made log) (named calls)
         \<and> (case r of
               Inr u \<Rightarrow> list_all succeeded log \<and> map made log = named calls
             | Inl x \<Rightarrow> log \<noteq> [] \<and> stopped_by (last log) x)"
    using run_calls_follows [of calls opts w] by (simp add: follows_def)
  show "run_calls opts [(c, ex)] w =
       (case call c opts ex w of
          (Inl x, w') \<Rightarrow> ([(name c, ex, Inl x)], Inl x, w')
        | (Inr ret, w') \<Rightarrow>
            ([(name c, ex, Inr ret)],
             if none_or_zero ret then Inr () else Inl (SystemExit ret), w'))"
    by (rule run_calls_single)
  show "run_calls opts (xs @ ys) w =
       (case run_calls opts xs w of
          (log, Inl x, w') \<Rightarrow> (log, Inl x, w')
        | (log, Inr u, w') \<Rightarrow>
            (case run_calls opts ys w' of (log', r, w'') \<Rightarrow> (log @ log', r, w'')))"
    by (rule run_calls_append)
  {
    assume "ignore opts = []"
    then show "calls_for opts [cmdA, cmdB] [ex1, ex2]
          = [(cmdA, ex1), (cmdB, ex1), (cmdA, ex2), (cmdB, ex2)]"
      by (simp add: calls_for_def)
  }
  {
    assume "ex1 \<in> set (ignore opts) \<and> ex2 \<notin> set (ignore opts)"
    then show "calls_for opts [cmdA, cmdB] [ex1, ex2] = [(cmdA, ex2), (cmdB, ex2)]"
      by (simp add: calls_for_def)
  }
  {
    assume "exercise opts = [p, q]"
    then show "dispatch e opts cmds w =
          (case run_calls opts (calls_for opts cmds (glob e (files w) p)) w of
             (log, Inl x, w') \<Rightarrow> (log, Inl x, w')
           | (log, Inr u, w') \<Rightarrow>
               (case run_calls opts (calls_for opts cmds (glob e (files w') q)) w' of
                  (log', r, w'') \<Rightarrow> (log @ log', r, w'')))"
      by (simp add: listed split: prod.splits sum.splits)
  }
  show "run_calls opts [] w = ([], Inr (), w)"
    by simp
qed

lemma stub_call:
  "call (stub_command n ret) opts target w = (Inr ret, printed (n @ ''('' @ target @ '') '') [] w)"
  by (simp add: stub_command_def py_then_print py_return_def)

lemma stub_name [simp]: "name (stub_command n ret) = n"
  by (simp add: stub_command_def)

lemma stubs_keep_listings:
  "keeps_listings e opts [stub_command n ret, stub_command n' ret']"
  by (simp add: keeps_listings_def stub_call)

lemma tree_glob [simp]:
  "glob (tree_env program code) fs pat = (if pat \<in> set (map fst fs) then [pat] else [])"
  by (simp add: tree_env_def)

lemma start_fields [simp]:
  "files (start fs) = fs" "stdout (start fs) = []" "redirected (start fs) = False"
  "spawned (start fs) = []" "pytest_runs (start fs) = []"
  by (simp_all add: start_def)

lemma removing_call:
  "call (removing_command n victim) opts target w
     = (Inr PyNone, w\<lparr>files := filter (\<lambda>(q, d). q \<noteq> victim) (files w)\<rparr>)"
  "name (removing_command n victim) = n"
  by (simp_all add: removing_command_def)

lemma remaining:
  "filter (\<lambda>(q, d). q \<noteq> ''ex2'') two_tree = [(''ex1'', True)]"
  by (simp add: two_tree_def)

text \<open>
  The theorem of C6 in the concrete environment, whose listing depends on the tree, on
  the targets ex1 and ex2: two commands that return \<^verbatim>\<open>None\<close> and 0; the second returning
  2; the first target ignored; one pattern; a pattern that matches nothing; and a command
  that removes ex2 while it runs on ex1, after which the second pattern lists nothing.
\<close>

theorem dispatch_order_witness:
  "keeps_listings (tree_env (tool 0) 0) two_targets
     [stub_command ''cmdA'' PyNone, stub_command ''cmdB'' (PyInt 0)]
   \<and> dispatch (tree_env (tool 0) 0) two_targets
         [stub_command ''cmdA'' PyNone, stub_command ''cmdB'' (PyInt 0)] (start two_tree)
       = ([(''cmdA'', ''ex1'', Inr PyNone), (''cmdB'', ''ex1'', Inr (PyInt 0)),
           (''cmdA'', ''ex2'', Inr PyNone), (''cmdB'', ''ex2'', Inr (PyInt 0))],
          Inr (),
          (start two_tree)\<lparr>stdout := ''cmdA(ex1) cmdB(ex1) cmdA(ex2) cmdB(ex2) ''\<rparr>)
   \<and> keeps_listings (tree_env (tool 0) 0) two_targets
       [stub_command ''cmdA'' PyNone, stub_command ''cmdB'' (PyInt 2)]
   \<and> dispatch (tree_env (tool 0) 0) two_targets
         [stub_command ''cmdA'' PyNone, stub_command ''cmdB'' (PyInt 2)] (start two_tree)
       = ([(''cmdA'', ''ex1'', Inr PyNone), (''cmdB'', ''ex1'', Inr (PyInt 2))],
          Inl (SystemExit (PyInt 2)),
          (start two_tree)\<lparr>stdout := ''cmdA(ex1) cmdB(ex1) ''\<rparr>)
   \<and> stopped_by (''cmdB'', ''ex1'', Inr (PyInt 2)) (SystemExit (PyInt 2))
   \<and> dispatch (tree_env (tool 0) 0) (two_targets\<lparr>ignore := [''ex1'']\<rparr>)
         [stub_command ''cmdA'' PyNone, stub_command ''cmdB'' (PyInt 0)] (start two_tree)
       = ([(''cmdA'', ''ex2'', Inr PyNone), (''cmdB'', ''ex2'', Inr (PyInt 0))],
          Inr (),
          (start two_tree)\<lparr>stdout := ''cmdA(ex2) cmdB(ex2) ''\<rparr>)
   \<and> exercise (two_targets\<lparr>exercise := [''ex2'']\<rparr>) = [''ex2'']
   \<and> dispatch (tree_env (tool 0) 0) (two_targets\<lparr>exercise := [''ex2'']\<rparr>)
         [stub_command ''cmdA'' PyNone, stub_command ''cmdB'' (PyInt 0)] (start two_tree)
       = ([(''cmdA'', ''ex2'', Inr PyNone), (''cmdB'', ''ex2'', Inr (PyInt 0))],
          Inr (),
          (start two_tree)\<lparr>stdout := ''cmdA(ex2) cmdB(ex2) ''\<rparr>)
   \<and> dispatch (tree_env (tool 0) 0) (two_targets\<lparr>exercise := [''ex3'', ''ex2'']\<rparr>)
         [stub_command ''cmdA'' PyNone] (start two_tree)
       = ([(''cmdA'', ''ex2'', Inr PyNone)], Inr (),
          (start two_tree)\<lparr>stdout := ''cmdA(ex2) ''\<rparr>)
   \<and> exercise two_targets = [''ex1'', ''ex2'']
   \<and> dispatch (tree_env (tool 0) 0) two_targets [removing_command ''rm'' ''ex2'']
         (start two_tree)
       = ([(''rm'', ''ex1'', Inr PyNone)], Inr (), (start two_tree)\<lparr>files := [(''ex1'', True)]\<rparr>)
   \<and> ignore two_targets = []
   \<and> calls_for two_targets [stub_command ''cmdA'' PyNone, stub_command ''cmdB'' (PyInt 0)]
         [''ex1'', ''ex2'']
       = [(stub_command ''cmdA'' PyNone, ''ex1''), (stub_command ''cmdB'' (PyInt 0), ''ex1''),
          (stub_command ''cmdA'' PyNone, ''ex2''), (stub_command ''cmdB'' (PyInt 0), ''ex2'')]
   \<and> calls_for (two_targets\<lparr>ignore := [''ex1'']\<rparr>)
         [stub_command ''cmdA'' PyNone, stub_command ''cmdB'' (PyInt 0)] [''ex1'', ''ex2'']
       = [(stub_command ''cmdA'' PyNone, ''ex2''), (stub_command ''cmdB'' (PyInt 0), ''ex2'')]"
proof -
  let ?e = "tree_env (tool 0) 0"
  let ?ok = "[stub_command ''cmdA'' PyNone, stub_command ''cmdB'' (PyInt 0)]"
  let ?bad = "[stub_command ''cmdA'' PyNone, stub_command ''cmdB'' (PyInt 2)]"
  have opts [simp]:
    "exercise two_targets = [''ex1'', ''ex2'']" "ignore two_targets = []"
    by (simp_all add: two_targets_def)
  have tree [simp]: "fst ` set two_tree = {''ex1'', ''ex2''}"
    by (auto simp: two_tree_def)
  have keep_ok: "keeps_listings ?e two_targets ?ok"
    and keep_bad: "keeps_listings ?e two_targets ?bad"
    by (rule stubs_keep_listings)+
  note flat_ok = dispatch_order [where e = ?e and opts = two_targets and cmds = ?ok
      and w = "start two_tree", THEN conjunct2, THEN conjunct2, THEN conjunct1, rule_format,
      OF keep_ok]
  note flat_bad = dispatch_order [where e = ?e and opts = two_targets and cmds = ?bad
      and w = "start two_tree", THEN conjunct2, THEN conjunct2, THEN conjunct1, rule_format,
      OF keep_bad]
  note listed_ign = dispatch_order [where e = ?e
      and opts = "two_targets\<lparr>ignore := [''ex1'']\<rparr>"
      and cmds = ?ok and w = "start two_tree", THEN conjunct1]
  note single = dispatch_order [where e = ?e and opts = "two_targets\<lparr>exercise := [''ex2'']\<rparr>"
      and cmds = ?ok and w = "start two_tree" and p = "''ex2''",
      THEN conjunct2, THEN conjunct1, rule_format]
  note listed_dyn = dispatch_order [where e = ?e
      and opts = "two_targets\<lparr>exercise := [''ex3'', ''ex2'']\<rparr>"
      and cmds = "[stub_command ''cmdA'' PyNone]" and w = "start two_tree", THEN conjunct1]
  note two_rm = dispatch_order [where e = ?e and opts = two_targets
      and cmds = "[removing_command ''rm'' ''ex2'']" and w = "start two_tree"
      and p = "''ex1''" and q = "''ex2''",
      THEN conjunct2, THEN conjunct2, THEN conjunct2, THEN conjunct2, THEN conjunct2,
      THEN conjunct2, THEN conjunct2, THEN conjunct2, THEN conjunct1, rule_format]
  note due = dispatch_order [where opts = two_targets
      and cmdA = "stub_command ''cmdA'' PyNone" and cmdB = "stub_command ''cmdB'' (PyInt 0)"
      and ?ex1.0 = "''ex1''" and ?ex2.0 = "''ex2''",
      THEN conjunct2, THEN conjunct2, THEN conjunct2, THEN conjunct2, THEN conjunct2,
      THEN conjunct2, THEN conjunct1, rule_format]
  note due_ignored = dispatch_order [where opts = "two_targets\<lparr>ignore := [''ex1'']\<rparr>"
      and cmdA = "stub_command ''cmdA'' PyNone" and cmdB = "stub_command ''cmdB'' (PyInt 0)"
      and ?ex1.0 = "''ex1''" and ?ex2.0 = "''ex2''",
      THEN conjunct2, THEN conjunct2, THEN conjunct2, THEN conjunct2, THEN conjunct2,
      THEN conjunct2, THEN conjunct2, THEN conjunct1, rule_format]
  have ok: "dispatch ?e two_targets ?ok (start two_tree)
       = ([(''cmdA'', ''ex1'', Inr PyNone), (''cmdB'', ''ex1'', Inr (PyInt 0)),
           (''cmdA'', ''ex2'', Inr PyNone), (''cmdB'', ''ex2'', Inr (PyInt 0))],
          Inr (),
          (start two_tree)\<lparr>stdout := ''cmdA(ex1) cmdB(ex1) cmdA(ex2) cmdB(ex2) ''\<rparr>)"
    by (simp add: flat_ok calls_for_def stub_call none_or_zero_def printed_def)
  have bad: "dispatch ?e two_targets ?bad (start two_tree)
       = ([(''cmdA'', ''ex1'', Inr PyNone), (''cmdB'', ''ex1'', Inr (PyInt 2))],
          Inl (SystemExit (PyInt 2)),
          (start two_tree)\<lparr>stdout := ''cmdA(ex1) cmdB(ex1) ''\<rparr>)"
    by (simp add: flat_bad calls_for_def stub_call none_or_zero_def printed_def)
  have ign: "dispatch ?e (two_targets\<lparr>ignore := [''ex1'']\<rparr>) ?ok (start two_tree)
       = ([(''cmdA'', ''ex2'', Inr PyNone), (''cmdB'', ''ex2'', Inr (PyInt 0))],
          Inr (),
          (start two_tree)\<lparr>stdout := ''cmdA(ex2) cmdB(ex2) ''\<rparr>)"
    by (simp add: listed_ign calls_for_def stub_call none_or_zero_def printed_def)
  have one: "dispatch ?e (two_targets\<lparr>exercise := [''ex2'']\<rparr>) ?ok (start two_tree)
       = ([(''cmdA'', ''ex2'', Inr PyNone), (''cmdB'', ''ex2'', Inr (PyInt 0))],
          Inr (),
          (start two_tree)\<lparr>stdout := ''cmdA(ex2) cmdB(ex2) ''\<rparr>)"
    by (simp add: single calls_for_def stub_call none_or_zero_def printed_def)
  have dyn: "dispatch ?e (two_targets\<lparr>exercise := [''ex3'', ''ex2'']\<rparr>)
         [stub_command ''cmdA'' PyNone] (start two_tree)
       = ([(''cmdA'', ''ex2'', Inr PyNone)], Inr (),
          (start two_tree)\<lparr>stdout := ''cmdA(ex2) ''\<rparr>)"
    by (simp add: listed_dyn calls_for_def stub_call none_or_zero_def printed_def)
  have rm: "dispatch ?e two_targets [removing_command ''rm'' ''ex2''] (start two_tree)
       = ([(''rm'', ''ex1'', Inr PyNone)], Inr (), (start two_tree)\<lparr>files := [(''ex1'', True)]\<rparr>)"
    by (simp add: two_rm calls_for_def removing_call none_or_zero_def remaining)
  have plan: "calls_for two_targets ?ok [''ex1'', ''ex2'']
       = [(stub_command ''cmdA'' PyNone, ''ex1''), (stub_command ''cmdB'' (PyInt 0), ''ex1''),
          (stub_command ''cmdA'' PyNone, ''ex2''), (stub_command ''cmdB'' (PyInt 0), ''ex2'')]"
    by (rule due) simp
  have plan_ignored: "calls_for (two_targets\<lparr>ignore := [''ex1'']\<rparr>) ?ok [''ex1'', ''ex2'']
       = [(stub_command ''cmdA'' PyNone, ''ex2''), (stub_command ''cmdB'' (PyInt 0), ''ex2'')]"
    by (rule due_ignored) simp
  show ?thesis
    using keep_ok keep_bad
    by (simp only: ok bad ign one dyn rm plan plan_ignored)
       (simp add: stopped_by_def none_or_zero_def)
qed

section \<open>Runs that end differently from what the wrapper prepares for\<close>

lemmas run_defs =
  wrapper_def py_then_def py_bind_def py_except_def py_return_def py_raise_def sys_exit_def
  capture_def print_def printed_def except_clauses_def decode_def truthy_def
  title_def is_alpha_def upper_def lower_def lowers_def uppers_def
  terminal_def check_call_def git_def exercism_def
  os_path_isfile_def os_path_isdir_def os_path_join_def suffix_to_prefix replace_hyphens_def
  tree_env_def tool_def start_def demo_opts_def demo_tree_def str_join_def pytest_def

lemma demo_opts_fields [simp]:
  "verbose demo_opts = None" "ignore demo_opts = []" "timeout demo_opts = None"
  "exercise demo_opts = [''two-fer'']"
  by (simp_all add: demo_opts_def)

lemma demo_tree_target [simp]: "''two-fer'' \<in> fst ` set demo_tree"
  by (simp add: demo_tree_def)

text \<open>
  Claim C1 at a failing input: \<^verbatim>\<open>exutil.py test two-fer\<close> with a test runner that returns
  1. The function \<^verbatim>\<open>test\<close> returns 1, but the decorated command returns \<^verbatim>\<open>None\<close>: \<^verbatim>\<open>_wrapper\<close>
  drops the value. The loop sees \<^verbatim>\<open>None\<close>, goes on, and the process ends with status 0.
  In every environment and state, a call of the decorated command that returns at all
  returns \<^verbatim>\<open>None\<close>.
\<close>

theorem test_result_code_is_dropped:
  "fst (test (tree_env (tool 0) 1) demo_opts ''two-fer''
          (entered ''testing'' demo_opts ''two-fer'' (start demo_tree))) = Inr (PyInt 1)
   \<and> call (test_cmd (tree_env (tool 0) 1)) demo_opts ''two-fer'' (start demo_tree)
       = (Inr PyNone,
          (start demo_tree)\<lparr>stdout := ''Testing two-fer...Done'' @ newline,
                             pytest_runs := [[PyStr ''-x'', PyStr ''two-fer'']]\<rparr>)
   \<and> dispatch (tree_env (tool 0) 1) demo_opts [test_cmd (tree_env (tool 0) 1)] (start demo_tree)
       = ([(''test'', ''two-fer'', Inr PyNone)], Inr (),
          (start demo_tree)\<lparr>stdout := ''Testing two-fer...Done'' @ newline,
                             pytest_runs := [[PyStr ''-x'', PyStr ''two-fer'']]\<rparr>)
   \<and> exit_status (fst (snd (dispatch (tree_env (tool 0) 1) demo_opts
                                [test_cmd (tree_env (tool 0) 1)] (start demo_tree)))) = 0
   \<and> (case fst (call (test_cmd e) opts ex w) of Inr v \<Rightarrow> v = PyNone | Inl x \<Rightarrow> True)"
proof -
  have never: "case fst (call (test_cmd e) opts ex w) of Inr v \<Rightarrow> v = PyNone | Inl x \<Rightarrow> True"
    using wrapper_returns_None [of "''testing''" "test e" opts ex w]
    by (simp add: test_cmd_def)
  have body: "fst (test (tree_env (tool 0) 1) demo_opts ''two-fer''
          (entered ''testing'' demo_opts ''two-fer'' (start demo_tree))) = Inr (PyInt 1)"
    by (simp add: test_def entered_def run_defs)
  have wrapped: "call (test_cmd (tree_env (tool 0) 1)) demo_opts ''two-fer'' (start demo_tree)
       = (Inr PyNone,
          (start demo_tree)\<lparr>stdout := ''Testing two-fer...Done'' @ newline,
                             pytest_runs := [[PyStr ''-x'', PyStr ''two-fer'']]\<rparr>)"
    by (simp add: test_cmd_def test_def run_defs)
  have loop: "dispatch (tree_env (tool 0) 1) demo_opts [test_cmd (tree_env (tool 0) 1)]
                (start demo_tree)
       = ([(''test'', ''two-fer'', Inr PyNone)], Inr (),
          (start demo_tree)\<lparr>stdout := ''Testing two-fer...Done'' @ newline,
                             pytest_runs := [[PyStr ''-x'', PyStr ''two-fer'']]\<rparr>)"
    by (simp add: dispatch_def wrapped none_or_zero_def)
  show ?thesis
    using never by (simp only: body wrapped loop) simp
qed

text \<open>
  Claim C3 at a failing input: \<^verbatim>\<open>exutil.py checkin two-fer\<close> with a \<^verbatim>\<open>git\<close> that exits with
  status 128. \<^verbatim>\<open>check_call\<close> captures nothing, so the \<^verbatim>\<open>output\<close> of the exception is \<^verbatim>\<open>None\<close>
  and the \<^verbatim>\<open>except\<close> clause raises an attribute error at \<^verbatim>\<open>.decode()\<close>: nothing is printed
  after the announcement and the process ends with status 1, not 128. In general, every
  \<^verbatim>\<open>CalledProcessError\<close> that \<^verbatim>\<open>check_call\<close> raises carries the output \<^verbatim>\<open>None\<close>, and on such an
  exception the \<^verbatim>\<open>except\<close> clause raises the attribute error and leaves the state as it is.
\<close>

theorem failed_tool_exit_code_is_lost:
  "call (checkin_cmd (tree_env (tool 128) 0)) demo_opts ''two-fer'' (start demo_tree)
     = (Inl AttributeError,
        (start demo_tree)\<lparr>stdout := ''Checking In two-fer...'',
                           spawned := [[''git'', ''add'', ''two-fer'']]\<rparr>)
   \<and> dispatch (tree_env (tool 128) 0) demo_opts [checkin_cmd (tree_env (tool 128) 0)]
         (start demo_tree)
     = ([(''checkin'', ''two-fer'', Inl AttributeError)], Inl AttributeError,
        (start demo_tree)\<lparr>stdout := ''Checking In two-fer...'',
                           spawned := [[''git'', ''add'', ''two-fer'']]\<rparr>)
   \<and> exit_status (fst (snd (dispatch (tree_env (tool 128) 0) demo_opts
                                [checkin_cmd (tree_env (tool 128) 0)] (start demo_tree)))) = 1
   \<and> check_call e args w
       = (case run_program e args (files w) of
            (NotStarted, fs) \<Rightarrow> (Inl OSError, w\<lparr>files := fs\<rparr>)
          | (Exited rc, fs) \<Rightarrow>
              (if rc = 0 then Inr (PyInt 0) else Inl (CalledProcessError rc PyNone),
               w\<lparr>files := fs, spawned := spawned w @ [args]\<rparr>))
   \<and> except_clauses (CalledProcessError rc PyNone) w = (Inl AttributeError, w)"
proof -
  have raised: "check_call e args w
       = (case run_program e args (files w) of
            (NotStarted, fs) \<Rightarrow> (Inl OSError, w\<lparr>files := fs\<rparr>)
          | (Exited rc, fs) \<Rightarrow>
              (if rc = 0 then Inr (PyInt 0) else Inl (CalledProcessError rc PyNone),
               w\<lparr>files := fs, spawned := spawned w @ [args]\<rparr>))"
    by (simp add: check_call_def split: prod.splits proc.splits)
  have clause: "except_clauses (CalledProcessError rc PyNone) w = (Inl AttributeError, w)"
    by (simp add: except_clauses_eval)
  have wrapped: "call (checkin_cmd (tree_env (tool 128) 0)) demo_opts ''two-fer'' (start demo_tree)
     = (Inl AttributeError,
        (start demo_tree)\<lparr>stdout := ''Checking In two-fer...'',
                           spawned := [[''git'', ''add'', ''two-fer'']]\<rparr>)"
    by (simp add: checkin_cmd_def checkin_def run_defs)
  have loop: "dispatch (tree_env (tool 128) 0) demo_opts [checkin_cmd (tree_env (tool 128) 0)]
         (start demo_tree)
     = ([(''checkin'', ''two-fer'', Inl AttributeError)], Inl AttributeError,
        (start demo_tree)\<lparr>stdout := ''Checking In two-fer...'',
                           spawned := [[''git'', ''add'', ''two-fer'']]\<rparr>)"
    by (simp add: dispatch_def wrapped)
  show ?thesis
    using raised clause by (simp only: wrapped loop) simp
qed

text \<open>
  Claim C9 at a failing input: \<^verbatim>\<open>exutil.py migrate two-fer\<close> with a download that succeeds
  and leaves \<^verbatim>\<open>two-fer-2\<close>. \<^verbatim>\<open>terminal\<close> raises the attribute error right after the
  download, so nothing is copied and \<^verbatim>\<open>two-fer-2\<close> is still there after the call. In
  every environment and state, \<^verbatim>\<open>migrate\<close> finds the marker file or raises: no run gets
  past the download.
\<close>

theorem migrate_stops_after_download:
  "call (migrate_cmd (tree_env (tool 0) 0)) demo_opts ''two-fer'' (start demo_tree)
     = (Inl AttributeError,
        (start demo_tree)
          \<lparr>files := [(''two-fer-2'', True), (''two-fer-2/.solution.json'', False),
                     (''two-fer-2/README.md'', False), (''two-fer-2/two_fer_test.py'', False),
                     (''two-fer'', True), (''two-fer/two_fer.py'', False)],
           stdout := ''Migrating two-fer...'',
           spawned := [[''exercism'', ''download'', ''-t'', ''python'', ''-e'', ''two-fer'']]\<rparr>)
   \<and> isdir (tree_env (tool 0) 0)
         (files (snd (call (migrate_cmd (tree_env (tool 0) 0)) demo_opts ''two-fer''
                        (start demo_tree)))) ''two-fer-2''
   \<and> \<not> isfile (tree_env (tool 0) 0)
         (files (snd (call (migrate_cmd (tree_env (tool 0) 0)) demo_opts ''two-fer''
                        (start demo_tree)))) ''two-fer/.solution.json''
   \<and> (isfile e (files w) (os_path_join ex ''.solution.json'')
        \<or> (\<exists>x. fst (migrate e ex w) = Inl x))"
proof -
  have never: "isfile e (files w) (os_path_join ex ''.solution.json'')
        \<or> (\<exists>x. fst (migrate e ex w) = Inl x)"
  proof (cases "isfile e (files w) (os_path_join ex ''.solution.json'')")
    case True
    then show ?thesis ..
  next
    case False
    obtain x where "fst (terminal e [''exercism'', ''download'', ''-t'', ''python'', ''-e'', ex] w)
                      = Inl x"
      using terminal_raises by blast
    with False have "fst (migrate e ex w) = Inl x"
      by (simp add: migrate_def os_path_isfile_def py_bind_def exercism_def py_then_fails)
    then show ?thesis by blast
  qed
  have wrapped: "call (migrate_cmd (tree_env (tool 0) 0)) demo_opts ''two-fer'' (start demo_tree)
     = (Inl AttributeError,
        (start demo_tree)
          \<lparr>files := [(''two-fer-2'', True), (''two-fer-2/.solution.json'', False),
                     (''two-fer-2/README.md'', False), (''two-fer-2/two_fer_test.py'', False),
                     (''two-fer'', True), (''two-fer/two_fer.py'', False)],
           stdout := ''Migrating two-fer...'',
           spawned := [[''exercism'', ''download'', ''-t'', ''python'', ''-e'', ''two-fer'']]\<rparr>)"
    by (simp add: migrate_cmd_def migrate_def run_defs)
  show ?thesis
    using never by (simp only: wrapped) (simp add: tree_env_def)
qed

end
